theory Spec2Isabelle
  imports Main
begin

section \<open>JavaScript strings and arrays used by favicon.ts\<close>

text \<open>
  Strings are lists of code units; the model covers code units below 256. An attribute
  read with \<open>getAttribute\<close> is a \<open>string option\<close>, \<open>None\<close> being \<open>null\<close>.
  The test \<open>!s\<close> on such a value holds for \<open>null\<close> and for the empty string.
\<close>

definition falsy :: "string option \<Rightarrow> bool" where
  "falsy s = (case s of None \<Rightarrow> True | Some t \<Rightarrow> t = [])"

text \<open>\<open>s.split(c)\<close> for a separator of one code unit: never empty, \<open>''''\<close> gives \<open>['''']\<close>.\<close>

fun js_split :: "char \<Rightarrow> string \<Rightarrow> string list" where
  "js_split c [] = [[]]"
| "js_split c (x # xs) =
     (if x = c then [] # js_split c xs
      else (case js_split c xs of
              [] \<Rightarrow> [[x]]
            | t # ts \<Rightarrow> (x # t) # ts))"

text \<open>\<open>xs.join(c)\<close>, used to say what \<open>split\<close> computes.\<close>

fun joinWith :: "char \<Rightarrow> string list \<Rightarrow> string" where
  "joinWith c [] = []"
| "joinWith c [t] = t"
| "joinWith c (t # u # ts) = t @ c # joinWith c (u # ts)"

text \<open>\<open>xs.indexOf(x)\<close>: the first position of \<open>x\<close>, or \<open>-1\<close>.\<close>

fun indexOf :: "'a list \<Rightarrow> 'a \<Rightarrow> int" where
  "indexOf [] x = -1"
| "indexOf (y # ys) x =
     (if y = x then 0
      else (let i = indexOf ys x in if i = -1 then -1 else i + 1))"

text \<open>
  The Number values the module compares. A Number other than \<open>NaN\<close> is minus infinity,
  plus infinity or a finite double; the only finite values that occur are integers, kept
  as the integer they denote (\<open>-0\<close> and \<open>0\<close> compare equal and are both \<open>Finite 0\<close>).
  \<open>NaN\<close> is \<open>None\<close> where a function may return it. The order is the one the operator \<open>>\<close> tests.
\<close>

datatype Number = NegInfinity | Finite int | PosInfinity

instantiation Number :: linorder
begin

definition less_eq_Number :: "Number \<Rightarrow> Number \<Rightarrow> bool" where
  "less_eq_Number a b =
     (case a of
        NegInfinity \<Rightarrow> True
      | Finite x \<Rightarrow> (case b of NegInfinity \<Rightarrow> False | Finite y \<Rightarrow> x \<le> y | PosInfinity \<Rightarrow> True)
      | PosInfinity \<Rightarrow> (case b of PosInfinity \<Rightarrow> True | _ \<Rightarrow> False))"

definition less_Number :: "Number \<Rightarrow> Number \<Rightarrow> bool" where
  "less_Number a b = (a \<le> b \<and> \<not> b \<le> (a :: Number))"

instance
  by standard (auto simp: less_eq_Number_def less_Number_def split: Number.splits)

end

text \<open>
  The double nearest to an integer that is not negative, ties to the even significand: below \<open>2^53\<close>
  the number itself; above, the 53 leading bits, rounded by the bits cut off; plus
  infinity when the rounded value reaches \<open>2^1024\<close>. \<open>pow2 e\<close> is \<open>2^e\<close> and
  \<open>bitLength m\<close> the number of binary digits of \<open>m\<close>.
\<close>

function bitLength :: "int \<Rightarrow> nat" where
  "bitLength n = (if n \<le> 0 then 0 else Suc (bitLength (n div 2)))"
  by pat_completeness auto
termination
  by (relation "measure nat") auto

fun pow2 :: "nat \<Rightarrow> int" where
  "pow2 0 = 1"
| "pow2 (Suc n) = 2 * pow2 n"

definition roundToDouble :: "int \<Rightarrow> Number" where
  "roundToDouble m =
     (if m < pow2 53 then Finite m
      else
        (let e = bitLength m - 53;
             q = m div pow2 e;
             r = m mod pow2 e;
             half = pow2 (e - 1);
             q' = (if r > half \<or> (r = half \<and> odd q) then q + 1 else q);
             v = q' * pow2 e
         in if v \<ge> pow2 1024 then PosInfinity else Finite v))"

definition negate :: "Number \<Rightarrow> Number" where
  "negate a = (case a of NegInfinity \<Rightarrow> PosInfinity | Finite x \<Rightarrow> Finite (- x)
               | PosInfinity \<Rightarrow> NegInfinity)"

text \<open>The Number for a mathematical integer.\<close>

definition toNumber :: "int \<Rightarrow> Number" where
  "toNumber i = (if i < 0 then negate (roundToDouble (- i)) else roundToDouble i)"

text \<open>
  \<open>parseInt(s, 10)\<close>: leading white space is skipped, one sign is read, then the longest
  run of decimal digits; no digit at all gives \<open>NaN\<close>, which is \<open>None\<close> here. The digits
  denote a mathematical integer, and the result is the Number for it with its sign: a
  double, so that digit strings from \<open>2^53\<close> on are rounded and very long ones give
  infinity. (The language lets an implementation zero the digits after the 20th before
  it rounds; the model rounds the exact integer, as the common engines do.)
  \<open>parseInt(undefined, 10)\<close> is \<open>NaN\<close> as well.
\<close>

definition isWhiteSpace :: "char \<Rightarrow> bool" where
  "isWhiteSpace c = (c \<in> set [CHR 0x09, CHR 0x0A, CHR 0x0B, CHR 0x0C, CHR 0x0D, CHR 0x20, CHR 0xA0])"

definition isDigit :: "char \<Rightarrow> bool" where
  "isDigit c = ((48::nat) \<le> of_char c \<and> of_char c \<le> (57::nat))"

definition digitValue :: "char \<Rightarrow> int" where
  "digitValue c = int (of_char c) - 48"

definition digitsValue :: "string \<Rightarrow> int" where
  "digitsValue ds = foldl (\<lambda>a c. 10 * a + digitValue c) 0 ds"

definition parseDigits :: "string \<Rightarrow> int option" where
  "parseDigits s =
     (let ds = takeWhile isDigit s in if ds = [] then None else Some (digitsValue ds))"

definition parseInt :: "string \<Rightarrow> Number option" where
  "parseInt s =
     (case dropWhile isWhiteSpace s of
        [] \<Rightarrow> None
      | c # cs \<Rightarrow>
          (if c = CHR ''-'' then map_option (\<lambda>i. toNumber (- i)) (parseDigits cs)
           else if c = CHR ''+'' then map_option toNumber (parseDigits cs)
           else map_option toNumber (parseDigits (c # cs))))"

text \<open>\<open>parseInt(s.split(c)[0], 10)\<close>.\<close>

definition parseIntFirst :: "char \<Rightarrow> string \<Rightarrow> Number option" where
  "parseIntFirst c s = (case js_split c s of [] \<Rightarrow> None | t # ts \<Rightarrow> parseInt t)"

section \<open>Link elements and the document head\<close>

text \<open>
  A link element has an identity (\<open>node\<close>: two elements with equal attributes are still
  two elements) and the attributes the module reads or writes. The head is the sequence
  of the link elements below \<open>document.head\<close>, in document order, which is what
  \<open>getElementsByTagName('link')\<close> returns; nothing in the module reads another element.
\<close>

record Favicon =
  node :: nat
  href :: "string option"
  rel :: "string option"
  sizes :: "string option"
  elemId :: "string option"
  elemType :: "string option"

text \<open>The loop of \<open>getFavicons\<close>, with the array \<open>favicons\<close> as accumulator.\<close>

fun getFavicons_loop :: "Favicon list \<Rightarrow> Favicon list \<Rightarrow> Favicon list" where
  "getFavicons_loop [] favicons = favicons"
| "getFavicons_loop (link # links) favicons =
     (if falsy (href link) then getFavicons_loop links favicons
      else if falsy (rel link) then getFavicons_loop links favicons
      else (case rel link of
              None \<Rightarrow> getFavicons_loop links favicons
            | Some r \<Rightarrow>
                (if indexOf (js_split CHR '' '' r) ''icon'' = -1
                 then getFavicons_loop links favicons
                 else getFavicons_loop links (favicons @ [link]))))"

definition getFavicons :: "Favicon list \<Rightarrow> Favicon list" where
  "getFavicons links = getFavicons_loop links []"

text \<open>
  The loop of \<open>getBestFavicon\<close>, with \<open>bestFavicon\<close> and \<open>bestSize\<close> as loop state;
  the \<open>return favicon\<close> inside the loop ends the recursion.
\<close>

fun getBestFavicon_loop :: "Favicon list \<Rightarrow> Favicon option \<Rightarrow> Number \<Rightarrow> Favicon option" where
  "getBestFavicon_loop [] bestFavicon bestSize = bestFavicon"
| "getBestFavicon_loop (favicon # favicons) bestFavicon bestSize =
     (if falsy (href favicon) then getBestFavicon_loop favicons bestFavicon bestSize
      else if falsy (rel favicon) \<or>
              (case rel favicon of None \<Rightarrow> True
               | Some r \<Rightarrow> indexOf (js_split CHR '' '' r) ''icon'' = -1)
        then getBestFavicon_loop favicons bestFavicon bestSize
      else (case sizes favicon of
              None \<Rightarrow>
                (if bestFavicon = None then getBestFavicon_loop favicons (Some favicon) (Finite 0)
                 else getBestFavicon_loop favicons bestFavicon bestSize)
            | Some sz \<Rightarrow>
                (if sz = [] then
                   (if bestFavicon = None then getBestFavicon_loop favicons (Some favicon) (Finite 0)
                    else getBestFavicon_loop favicons bestFavicon bestSize)
                 else if sz = ''any'' then Some favicon
                 else (case parseIntFirst CHR ''x'' sz of
                         None \<Rightarrow>
                           (if bestFavicon = None
                            then getBestFavicon_loop favicons (Some favicon) (Finite 0)
                            else getBestFavicon_loop favicons bestFavicon bestSize)
                       | Some size' \<Rightarrow>
                           (if size' > bestSize
                            then getBestFavicon_loop favicons (Some favicon) size'
                            else getBestFavicon_loop favicons bestFavicon bestSize)))))"

definition getBestFavicon :: "Favicon list \<Rightarrow> Favicon option" where
  "getBestFavicon links = getBestFavicon_loop (getFavicons links) None (Finite 0)"

section \<open>Badge values and options\<close>

text \<open>
  Modelled from the spec: the type \<open>Value\<close> of \<open>./index\<close>, which is not among the
  sources. The spec describes a badge value as a non-negative integer count or any other
  value, booleans, negative numbers and non-numeric values included. Numbers are the
  integers here.
\<close>

datatype Value = VNum int | VBool bool | VString string

text \<open>
  Modelled from the spec: \<open>isPositiveNumber\<close> of \<open>./isPositiveNumber\<close>, which is not
  among the sources. By the spec the numeric branch of \<open>drawBubble\<close> is taken when the
  value is a non-negative integer, zero included.
\<close>

definition isPositiveNumber :: "Value \<Rightarrow> bool" where
  "isPositiveNumber v = (case v of VNum n \<Rightarrow> 0 \<le> n | _ \<Rightarrow> False)"

record Options =
  backgroundColor :: string
  color :: string
  indicator :: string

text \<open>\<open>Partial<Options>\<close>: every key may be absent (or \<open>undefined\<close>), which is \<open>None\<close>.\<close>

record PartialOptions =
  backgroundColorOpt :: "string option"
  colorOpt :: "string option"
  indicatorOpt :: "string option"

definition emptyPartial :: PartialOptions where
  "emptyPartial = \<lparr>backgroundColorOpt = None, colorOpt = None, indicatorOpt = None\<rparr>"

text \<open>
  Modelled from the spec: \<open>deepMerge\<close> of \<open>./deepMerge\<close>, which is not among the
  sources. By the spec the merge overwrites only the keys present in the partial update;
  absent or undefined keys keep the value of the base, and the base object is the one
  that is changed. The caller stores the result at the address of the base.
\<close>

definition deepMerge :: "Options \<Rightarrow> PartialOptions \<Rightarrow> Options" where
  "deepMerge base partial =
     \<lparr>backgroundColor =
        (case backgroundColorOpt partial of None \<Rightarrow> backgroundColor base | Some x \<Rightarrow> x),
      color = (case colorOpt partial of None \<Rightarrow> color base | Some x \<Rightarrow> x),
      indicator = (case indicatorOpt partial of None \<Rightarrow> indicator base | Some x \<Rightarrow> x)\<rparr>"

text \<open>The object literal bound to \<open>defaultOptions\<close>.\<close>

definition defaultOptionsLiteral :: Options where
  "defaultOptionsLiteral =
     \<lparr>backgroundColor = ''#424242'', color = ''#ffffff'', indicator = ''!''\<rparr>"

section \<open>Decimal strings\<close>

text \<open>\<open>String(n)\<close> for an integer \<open>n\<close>, also used by the template literal of the font.\<close>

definition digitChar :: "nat \<Rightarrow> char" where
  "digitChar d = char_of (48 + d)"

fun decimal :: "nat \<Rightarrow> string" where
  "decimal n = (if n < 10 then [digitChar n] else decimal (n div 10) @ [digitChar (n mod 10)])"

definition String :: "int \<Rightarrow> string" where
  "String n = (if n < 0 then CHR ''-'' # decimal (nat (- n)) else decimal (nat n))"

section \<open>The drawing surface\<close>

text \<open>
  The 2D context is the sequence of the calls and property writes made on it, oldest
  first. Coordinates are integers: every measure of \<open>drawBubble\<close> is an integer multiple
  of \<open>ratio\<close>, and \<open>width / 2\<close> is exact because \<open>width\<close> is a multiple of four.
\<close>

datatype DrawOp =
    ClearRect int int int int
  | DrawImage string int int int int int int int int
  | Save
  | Restore
  | GlobalAlpha int
  | FillStyle string
  | StrokeStyle string
  | LineWidth int
  | BeginPath
  | MoveTo int int
  | QuadraticCurveTo int int int int
  | LineTo int int
  | ClosePath
  | Fill
  | Font string
  | TextAlign string
  | TextBaseline string
  | FillText string int int

text \<open>\<open>size = 16 * ratio\<close>.\<close>

definition canvasSize :: "int \<Rightarrow> int" where
  "canvasSize ratio = 16 * ratio"

text \<open>The first part of \<open>drawBubble\<close>: the text that will be drawn.\<close>

definition finalValue :: "Value \<Rightarrow> Options \<Rightarrow> string" where
  "finalValue v options =
     (if isPositiveNumber v then
        (case v of
           VNum n \<Rightarrow> (if n = 0 then [] else if n < 100 then String n else ''99+'')
         | _ \<Rightarrow> [])
      else indicator options)"

definition drawBubble :: "int \<Rightarrow> DrawOp list \<Rightarrow> Value \<Rightarrow> Options \<Rightarrow> DrawOp list" where
  "drawBubble ratio ctx v options =
     (let fv = finalValue v options in
      if fv = [] then ctx
      else
        (let len = int (length fv) - 1;
             width = 8 * ratio + 4 * ratio * len;
             height = 7 * ratio;
             top = canvasSize ratio - height;
             left = canvasSize ratio - width - ratio;
             bottom = 16 * ratio;
             right = 16 * ratio;
             radius = 5 * ratio
         in ctx @
            [Save, GlobalAlpha 1, FillStyle (backgroundColor options),
             StrokeStyle (backgroundColor options), LineWidth ratio, BeginPath,
             MoveTo (left + radius) top,
             QuadraticCurveTo left top left (top + radius),
             LineTo left (bottom - radius),
             QuadraticCurveTo left bottom (left + radius) bottom,
             LineTo (right - radius) bottom,
             QuadraticCurveTo right bottom right (bottom - radius),
             LineTo right (top + radius),
             QuadraticCurveTo right top (right - radius) top,
             ClosePath, Fill, Restore,
             Save, Font (String (7 * ratio) @ ''px Arial''), FillStyle (color options),
             TextAlign ''center'', TextBaseline ''top'',
             FillText fv (left + width div 2 + 1) (9 * ratio + 1),
             Restore]))"

text \<open>The strings drawn by \<open>fillText\<close>, oldest first.\<close>

fun renderedText :: "DrawOp list \<Rightarrow> string list" where
  "renderedText [] = []"
| "renderedText (FillText t x y # ops) = t # renderedText ops"
| "renderedText (other # ops) = renderedText ops"

section \<open>Module state, document and pending image loads\<close>

text \<open>
  An image created by \<open>drawFavicon\<close>: its \<open>onload\<close> closure holds the value and a
  reference to the options object; \<open>src\<close> and \<open>crossOrigin\<close> are set only when a best
  favicon is known.
\<close>

record Image =
  imgValue :: Value
  imgOptions :: nat
  imgSrc :: "string option"
  imgCrossOrigin :: "string option"

text \<open>
  The state the module reads and writes:
  \<^item> \<open>head\<close>: the link elements of the document head; \<open>nextNode\<close>: the identity the
    next \<open>createElement('link')\<close> gets;
  \<^item> \<open>ratio\<close>: \<open>Math.ceil(window.devicePixelRatio) || 1\<close>, fixed when the module
    loads; \<open>hasContext2d\<close>: whether \<open>canvas.getContext\<close> exists and yields a context;
  \<^item> \<open>resolveURL\<close>: the browser's resolution of an \<open>href\<close> attribute against the
    document, which gives the absolute, normalised URL the \<open>href\<close> property reads (the
    attribute itself where it cannot be parsed);
  \<^item> \<open>objects\<close>: the store of options objects, by address; \<open>curOptions\<close> is the
    address held by \<open>current.options\<close>;
  \<^item> \<open>curFavicons\<close>, \<open>curBestFavicon\<close>, \<open>curValue\<close>: the other fields of \<open>current\<close>;
  \<^item> \<open>canvas\<close> (its width and height) and \<open>context2d\<close>, \<open>None\<close> being \<open>null\<close>;
  \<^item> \<open>images\<close>: the images whose load has not fired yet;
  \<^item> \<open>getFaviconsCalls\<close>, \<open>getBestFaviconCalls\<close>: how often each function has been
    entered (\<open>getBestFavicon\<close> enters \<open>getFavicons\<close> once).
\<close>

record World =
  head :: "Favicon list"
  nextNode :: nat
  ratio :: int
  hasContext2d :: bool
  resolveURL :: "string \<Rightarrow> string"
  objects :: "nat \<Rightarrow> Options"
  curFavicons :: "Favicon list option"
  curBestFavicon :: "Favicon option"
  curValue :: Value
  curOptions :: nat
  canvas :: "(int \<times> int) option"
  context2d :: "DrawOp list option"
  images :: "Image list"
  getFaviconsCalls :: nat
  getBestFaviconCalls :: nat

text \<open>The address of the object exported as \<open>defaultOptions\<close>.\<close>

definition defaultOptions :: nat where
  "defaultOptions = 0"

text \<open>
  The state after the module has loaded in a document with the given link elements, in a
  browser with the given pixel ratio, canvas support and URL resolution:
  \<open>current.options\<close> is initialised with the reference \<open>defaultOptions\<close> itself.
\<close>

definition init :: "Favicon list \<Rightarrow> int \<Rightarrow> bool \<Rightarrow> (string \<Rightarrow> string) \<Rightarrow> World" where
  "init links r ctx resolve =
     \<lparr>head = links, nextNode = Suc (fold max (map node links) 0), ratio = r,
      hasContext2d = ctx, resolveURL = resolve, objects = (\<lambda>a. defaultOptionsLiteral),
      curFavicons = None, curBestFavicon = None, curValue = VNum 0,
      curOptions = defaultOptions, canvas = None, context2d = None, images = [],
      getFaviconsCalls = 0, getBestFaviconCalls = 0\<rparr>"

text \<open>Calls of the two scanning functions on the document of a state.\<close>

definition callGetFavicons :: "World \<Rightarrow> Favicon list \<times> World" where
  "callGetFavicons w =
     (getFavicons (head w), w\<lparr>getFaviconsCalls := Suc (getFaviconsCalls w)\<rparr>)"

definition callGetBestFavicon :: "World \<Rightarrow> Favicon option \<times> World" where
  "callGetBestFavicon w =
     (getBestFavicon (head w),
      w\<lparr>getFaviconsCalls := Suc (getFaviconsCalls w),
        getBestFaviconCalls := Suc (getBestFaviconCalls w)\<rparr>)"

text \<open>
  \<open>parent.removeChild(favicon)\<close> and \<open>head.appendChild(favicon)\<close> on the sequence of
  links; appending a node that is in the document moves it to the end.
\<close>

definition removeChild :: "Favicon \<Rightarrow> Favicon list \<Rightarrow> Favicon list" where
  "removeChild favicon links = removeAll favicon links"

definition appendChild :: "Favicon \<Rightarrow> Favicon list \<Rightarrow> Favicon list" where
  "appendChild favicon links = removeAll favicon links @ [favicon]"

text \<open>The loop that removes every favicon found by \<open>getFavicons\<close>.\<close>

definition removeFavicons :: "World \<Rightarrow> World" where
  "removeFavicons w =
     (case callGetFavicons w of
        (favicons, w1) \<Rightarrow>
          w1\<lparr>head := fold (\<lambda>favicon links.
                           if favicon \<in> set links then removeChild favicon links else links)
                         favicons (head w1)\<rparr>)"

definition setFavicon :: "string \<Rightarrow> World \<Rightarrow> World" where
  "setFavicon url w =
     (if url = [] then w
      else
        (let w1 = removeFavicons w;
             newFavicon = \<lparr>node = nextNode w1, href = Some url, rel = Some ''icon favicon'',
                           sizes = None, elemId = Some ''badgin'',
                           elemType = Some ''image/x-icon''\<rparr>
         in w1\<lparr>head := appendChild newFavicon (head w1), nextNode := Suc (nextNode w1)\<rparr>))"

text \<open>
  The \<open>href\<close> property of a link element: the URL the browser resolves the attribute
  to, and the empty string when the attribute is missing.
\<close>

definition hrefProperty :: "World \<Rightarrow> Favicon \<Rightarrow> string" where
  "hrefProperty w favicon = (case href favicon of None \<Rightarrow> [] | Some h \<Rightarrow> resolveURL w h)"

definition drawFavicon :: "Value \<Rightarrow> nat \<Rightarrow> World \<Rightarrow> World" where
  "drawFavicon v options w =
     (let img =
        (case curBestFavicon w of
           None \<Rightarrow> \<lparr>imgValue = v, imgOptions = options, imgSrc = None, imgCrossOrigin = None\<rparr>
         | Some best \<Rightarrow>
             \<lparr>imgValue = v, imgOptions = options, imgSrc = Some (hrefProperty w best),
              imgCrossOrigin =
                (if take 4 (hrefProperty w best) = ''data'' then None else Some ''anonymous'')\<rparr>)
      in w\<lparr>images := images w @ [img]\<rparr>)"

text \<open>
  The \<open>onload\<close> closure of an image. The browser supplies the width and height of the
  loaded image and the result of \<open>canvas.toDataURL()\<close>, which is \<open>None\<close> when that call
  throws (a tainted canvas). A thrown error is returned beside the state reached.
\<close>

datatype Error = TypeError | SecurityError

definition onload :: "Image \<Rightarrow> int \<times> int \<Rightarrow> string option \<Rightarrow> World \<Rightarrow> Error option \<times> World" where
  "onload img dims dataURL w =
     (case canvas w of
        None \<Rightarrow> (None, w)
      | Some c \<Rightarrow>
          (case context2d w of
             None \<Rightarrow> (Some TypeError, w)
           | Some ctx \<Rightarrow>
               (let size' = canvasSize (ratio w);
                    src = (case imgSrc img of None \<Rightarrow> [] | Some u \<Rightarrow> u);
                    ctx1 = ctx @ [ClearRect 0 0 size' size',
                                  DrawImage src 0 0 (fst dims) (snd dims) 0 0 size' size'];
                    ctx2 = drawBubble (ratio w) ctx1 (imgValue img)
                             (objects w (imgOptions img));
                    w1 = w\<lparr>context2d := Some ctx2\<rparr>
                in (case dataURL of
                      None \<Rightarrow> (Some SecurityError, w1)
                    | Some url \<Rightarrow> (None, setFavicon url w1)))))"

section \<open>The exported functions\<close>

definition isAvailable :: "World \<Rightarrow> bool \<times> World" where
  "isAvailable w =
     (let w1 = (if context2d w = None
                then w\<lparr>canvas := Some (canvasSize (ratio w), canvasSize (ratio w)),
                       context2d := (if hasContext2d w then Some [] else None)\<rparr>
                else w)
      in if context2d w1 = None then (False, w1)
         else (case callGetBestFavicon w1 of (best, w2) \<Rightarrow> (best \<noteq> None, w2)))"

text \<open>
  \<open>set(value, options)\<close>; the name \<open>set\<close> is taken in HOL. Its two blocks of
  assignments, "Remember options" and "Remember favicons", are functions of their own.
\<close>

definition rememberOptions :: "Value \<Rightarrow> PartialOptions option \<Rightarrow> World \<Rightarrow> World" where
  "rememberOptions v options w =
     (let w1 = w\<lparr>curValue := v\<rparr>;
          partial = (case options of None \<Rightarrow> emptyPartial | Some p \<Rightarrow> p)
      in w1\<lparr>objects := (objects w1)
               (curOptions w1 := deepMerge (objects w1 (curOptions w1)) partial)\<rparr>)"

definition rememberFavicons :: "World \<Rightarrow> World" where
  "rememberFavicons w =
     (let w1 = (case curBestFavicon w of
                  Some b \<Rightarrow> w
                | None \<Rightarrow>
                    (case callGetBestFavicon w of
                       (best, w') \<Rightarrow> w'\<lparr>curBestFavicon := best\<rparr>))
      in (case curFavicons w1 of
            Some fs \<Rightarrow> w1
          | None \<Rightarrow>
              (case callGetFavicons w1 of
                 (favicons, w') \<Rightarrow> w'\<lparr>curFavicons := Some favicons\<rparr>)))"

definition set' :: "Value \<Rightarrow> PartialOptions option \<Rightarrow> World \<Rightarrow> bool \<times> World" where
  "set' v options w =
     (case isAvailable (rememberOptions v options w) of
        (available, w1) \<Rightarrow>
          if \<not> available then (False, w1)
          else
            (let w2 = rememberFavicons w1
             in (True, drawFavicon (curValue w2) (curOptions w2) w2)))"

definition clear :: "World \<Rightarrow> World" where
  "clear w =
     (case isAvailable w of
        (available, w1) \<Rightarrow>
          if \<not> available then w1
          else
            (case curFavicons w1 of
               None \<Rightarrow> w1
             | Some favicons \<Rightarrow>
                 (let w2 = removeFavicons w1
                  in w2\<lparr>head := fold appendChild favicons (head w2),
                        curFavicons := None, curBestFavicon := None\<rparr>)))"

section \<open>Sequences of calls and load events\<close>

text \<open>
  What can happen to the module: a call of an exported function, or the load event of
  the pending image at a position (no event when there is no such image).
\<close>

datatype Call =
    CallIsAvailable
  | CallSet Value "PartialOptions option"
  | CallClear
  | ImageLoaded nat "int \<times> int" "string option"

fun step :: "Call \<Rightarrow> World \<Rightarrow> World" where
  "step CallIsAvailable w = snd (isAvailable w)"
| "step (CallSet v options) w = snd (set' v options w)"
| "step CallClear w = clear w"
| "step (ImageLoaded i dims dataURL) w =
     (if i < length (images w)
      then snd (onload (images w ! i) dims dataURL
                  (w\<lparr>images := take i (images w) @ drop (Suc i) (images w)\<rparr>))
      else w)"

definition run :: "Call list \<Rightarrow> World \<Rightarrow> World" where
  "run calls w = fold step calls w"

section \<open>Notions used to state the properties\<close>

text \<open>
  A link element qualifies when its \<open>href\<close> is present and not empty and \<open>icon\<close> is one
  of the pieces of its \<open>rel\<close> between single space characters.
\<close>

definition qualifies :: "Favicon \<Rightarrow> bool" where
  "qualifies link =
     (case href link of
        None \<Rightarrow> False
      | Some h \<Rightarrow>
          h \<noteq> [] \<and>
          (case rel link of None \<Rightarrow> False | Some r \<Rightarrow> ''icon'' \<in> set (js_split CHR '' '' r)))"

text \<open>
  The reading of the specification: the tokens of \<open>rel\<close> are its maximal runs of
  characters other than ASCII white space (tab, line feed, form feed, carriage return,
  space), and a link element qualifies when \<open>icon\<close> is one of them.
\<close>

definition isAsciiWhitespace :: "char \<Rightarrow> bool" where
  "isAsciiWhitespace c = (c \<in> set [CHR 0x09, CHR 0x0A, CHR 0x0C, CHR 0x0D, CHR 0x20])"

fun whitespaceTokens :: "string \<Rightarrow> string \<Rightarrow> string list" where
  "whitespaceTokens cur [] = (if cur = [] then [] else [cur])"
| "whitespaceTokens cur (c # cs) =
     (if isAsciiWhitespace c
      then (if cur = [] then [] else [cur]) @ whitespaceTokens [] cs
      else whitespaceTokens (cur @ [c]) cs)"

definition qualifiesByWhitespace :: "Favicon \<Rightarrow> bool" where
  "qualifiesByWhitespace link =
     (case href link of
        None \<Rightarrow> False
      | Some h \<Rightarrow>
          h \<noteq> [] \<and>
          (case rel link of None \<Rightarrow> False | Some r \<Rightarrow> ''icon'' \<in> set (whitespaceTokens [] r)))"

text \<open>
  The Number a size descriptor stands for: what \<open>parseInt\<close> reads before the first
  \<open>x\<close>, for a descriptor that is present, not empty, not \<open>any\<close> and starts with an
  integer.
\<close>

definition parsedSize :: "Favicon \<Rightarrow> Number option" where
  "parsedSize link =
     (case sizes link of
        None \<Rightarrow> None
      | Some sz \<Rightarrow> if sz = [] \<or> sz = ''any'' then None else parseIntFirst CHR ''x'' sz)"

text \<open>The keys of an options object, to speak about one key at a time.\<close>

datatype Key = BackgroundColor | Color | Indicator

fun optionAt :: "Key \<Rightarrow> Options \<Rightarrow> string" where
  "optionAt BackgroundColor options = backgroundColor options"
| "optionAt Color options = color options"
| "optionAt Indicator options = indicator options"

fun partialAt :: "Key \<Rightarrow> PartialOptions \<Rightarrow> string option" where
  "partialAt BackgroundColor partial = backgroundColorOpt partial"
| "partialAt Color partial = colorOpt partial"
| "partialAt Indicator partial = indicatorOpt partial"

text \<open>Whether a call is a \<open>set\<close> whose options carry the key.\<close>

fun setsKey :: "Key \<Rightarrow> Call \<Rightarrow> bool" where
  "setsKey k (CallSet v (Some partial)) = (partialAt k partial \<noteq> None)"
| "setsKey k other = False"

text \<open>
  A URL resolution used in the examples: a \<open>data:\<close> URL is kept, anything else is taken
  relative to one site.
\<close>

definition resolveExample :: "string \<Rightarrow> string" where
  "resolveExample u = (if take 5 u = ''data:'' then u else ''https://example.org/'' @ u)"

text \<open>Link elements used in the examples.\<close>

definition mkLink :: "nat \<Rightarrow> string \<Rightarrow> string \<Rightarrow> string option \<Rightarrow> Favicon" where
  "mkLink n h r s =
     \<lparr>node = n, href = Some h, rel = Some r, sizes = s, elemId = None, elemType = None\<rparr>"

definition icon32 :: Favicon where
  "icon32 = mkLink 0 ''a.png'' ''icon'' (Some ''32x32'')"

definition icon16 :: Favicon where
  "icon16 = mkLink 1 ''b.png'' ''icon'' (Some ''16x16'')"

definition iconZero :: Favicon where
  "iconZero = mkLink 0 ''a.png'' ''icon'' (Some ''0x0'')"

definition iconAny1 :: Favicon where
  "iconAny1 = mkLink 0 ''a.svg'' ''icon'' (Some ''any'')"

definition iconAny2 :: Favicon where
  "iconAny2 = mkLink 1 ''b.svg'' ''icon'' (Some ''any'')"

definition iconTab :: Favicon where
  "iconTab = mkLink 0 ''a.png'' (''shortcut'' @ [CHR 0x09] @ ''icon'') None"

definition iconTab1 :: Favicon where
  "iconTab1 = mkLink 1 ''t.png'' (''shortcut'' @ [CHR 0x09] @ ''icon'') None"

definition iconHuge1 :: Favicon where
  "iconHuge1 = mkLink 0 ''a.png'' ''icon'' (Some ''9007199254740992x1'')"

definition iconHuge2 :: Favicon where
  "iconHuge2 = mkLink 1 ''b.png'' ''icon'' (Some ''9007199254740993x1'')"

definition stylesheet :: Favicon where
  "stylesheet = mkLink 5 ''s.css'' ''stylesheet'' None"

text \<open>
  A document with one icon after a first and a second \<open>set\<close>, and the state the first
  leaves when the page then takes every link element out of its head.
\<close>

definition session1 :: World where
  "session1 = snd (set' (VNum 1) None (init [icon32] 1 True resolveExample))"

definition session2 :: World where
  "session2 = snd (set' (VNum 2) None session1)"

definition orphaned :: World where
  "orphaned = session1\<lparr>head := []\<rparr>"

text \<open>A document with two icons after \<open>set(5)\<close> and the load of the image.\<close>

definition loaded :: World where
  "loaded = run [CallSet (VNum 5) None, ImageLoaded 0 (32, 32) (Some ''data:x'')]
              (init [icon32, icon16] 1 True resolveExample)"

text \<open>
  Two facts about the drawing surface that hold along every sequence of calls:
  \<open>surface\<close>, a context is never there without its canvas, and \<open>ready\<close>, both are
  there.
\<close>

definition surface :: "World \<Rightarrow> bool" where
  "surface w = (context2d w \<noteq> None \<longrightarrow> canvas w \<noteq> None)"

definition ready :: "World \<Rightarrow> bool" where
  "ready w = (context2d w \<noteq> None \<and> canvas w \<noteq> None)"

text \<open>
  A fact about identities that holds along every sequence of calls: no link element of
  the head or of the snapshot has the identity the next created element will get.
\<close>

definition fresh :: "World \<Rightarrow> bool" where
  "fresh w =
     ((\<forall>l\<in>set (head w). node l < nextNode w) \<and>
      (\<forall>l\<in>set (case curFavicons w of None \<Rightarrow> [] | Some fs \<Rightarrow> fs). node l < nextNode w))"

text \<open>A partial options object with one key.\<close>

definition redBackground :: PartialOptions where
  "redBackground = \<lparr>backgroundColorOpt = Some ''#ff0000'', colorOpt = None, indicatorOpt = None\<rparr>"

section \<open>The order of Numbers\<close>

lemma Finite_le [simp]: "Finite x \<le> Finite y \<longleftrightarrow> x \<le> y"
  by (simp add: less_eq_Number_def)

lemma Finite_less [simp]: "Finite x < Finite y \<longleftrightarrow> x < y"
  by (auto simp: less_Number_def less_eq_Number_def)

lemma PosInfinity_greatest [simp]: "a \<le> PosInfinity"
  by (simp add: less_eq_Number_def split: Number.splits)

lemma NegInfinity_least [simp]: "NegInfinity \<le> a"
  by (simp add: less_eq_Number_def)

lemma Finite_less_PosInfinity [simp]: "Finite x < PosInfinity"
  by (simp add: less_Number_def less_eq_Number_def)

section \<open>Properties of the scan for link elements\<close>

text \<open>
  \<open>split\<close> cuts at every occurrence of the separator: no piece holds the separator, and
  joining the pieces with it gives the string back.
\<close>

lemma js_split_nonempty: "js_split c s \<noteq> []"
  by (induction s) (auto split: list.splits)

lemma js_split_no_separator: "t \<in> set (js_split c s) \<Longrightarrow> c \<notin> set t"
  by (induction s arbitrary: t) (auto split: if_splits list.splits)

lemma joinWith_Cons: "joinWith c ((x # t) # ts) = x # joinWith c (t # ts)"
  by (cases ts) simp_all

lemma joinWith_empty_first: "ts \<noteq> [] \<Longrightarrow> joinWith c ([] # ts) = c # joinWith c ts"
  by (cases ts) simp_all

lemma js_split_join: "joinWith c (js_split c s) = s"
proof (induction s)
  case Nil
  show ?case by simp
next
  case (Cons x xs)
  obtain t ts where s: "js_split c xs = t # ts"
    using js_split_nonempty [of c xs] by (cases "js_split c xs") auto
  show ?case
  proof (cases "x = c")
    case True
    then show ?thesis using Cons js_split_nonempty [of c xs] by (simp add: joinWith_empty_first)
  next
    case False
    then show ?thesis using Cons s by (simp add: joinWith_Cons)
  qed
qed

lemma indexOf_ge: "- 1 \<le> indexOf xs x"
  by (induction xs) (auto simp: Let_def)

lemma indexOf_absent: "indexOf xs x = - 1 \<longleftrightarrow> x \<notin> set xs"
proof (induction xs)
  case Nil
  show ?case by simp
next
  case (Cons y ys)
  have "indexOf ys x + 1 \<noteq> - 1" using indexOf_ge [of ys x] by arith
  with Cons show ?case by (auto simp: Let_def)
qed

lemma qualifies_iff:
  "qualifies link \<longleftrightarrow>
     \<not> falsy (href link) \<and> \<not> falsy (rel link) \<and>
     (case rel link of None \<Rightarrow> False | Some r \<Rightarrow> indexOf (js_split CHR '' '' r) ''icon'' \<noteq> - 1)"
  by (auto simp: qualifies_def falsy_def indexOf_absent split: option.splits)

lemma getFavicons_loop_filter:
  "getFavicons_loop links favicons = favicons @ filter qualifies links"
  by (induction links arbitrary: favicons) (auto simp: qualifies_iff split: option.splits)

text \<open>
  The scan keeps exactly the link elements that qualify, in document order; this form
  is the one the later proofs use.
\<close>

lemma getFavicons_filter: "getFavicons links = filter qualifies links"
  by (simp add: getFavicons_def getFavicons_loop_filter)

text \<open>
  Claim C8, as the code has it: \<open>getFavicons\<close> returns, in document order, exactly the
  link elements whose \<open>href\<close> is present and not empty and whose \<open>rel\<close>, cut at every
  single space character, has the case-sensitive piece \<open>icon\<close>; every other element is
  skipped without an error.
\<close>

theorem getFavicons_space_tokens: "getFavicons links = filter qualifies links"
  by (simp add: getFavicons_def getFavicons_loop_filter)

text \<open>
  Claim C8 as written speaks of white-space separated tokens: a \<open>rel\<close> of
  \<open>shortcut\<close>, a tab character and \<open>icon\<close> has the token \<open>icon\<close>, but the scan skips
  the element, because only the space character separates.
\<close>

theorem getFavicons_tab_counterexample:
  "qualifiesByWhitespace iconTab \<and> getFavicons [iconTab] = []"
  by code_simp

section \<open>Properties of the selection\<close>

lemma loop_unqualified:
  "\<not> qualifies f \<Longrightarrow> getBestFavicon_loop (f # fs) b bs = getBestFavicon_loop fs b bs"
  by (auto simp: qualifies_iff split: option.splits)

lemma loop_numeric:
  "qualifies f \<Longrightarrow> parsedSize f = Some n \<Longrightarrow>
   getBestFavicon_loop (f # fs) b bs =
     (if n > bs then getBestFavicon_loop fs (Some f) n else getBestFavicon_loop fs b bs)"
  by (auto simp: qualifies_iff parsedSize_def split: option.splits if_splits)

lemma loop_any:
  "qualifies f \<Longrightarrow> sizes f = Some ''any'' \<Longrightarrow> getBestFavicon_loop (f # fs) b bs = Some f"
  by (auto simp: qualifies_iff split: option.splits)

lemma loop_not_any:
  "sizes f \<noteq> Some ''any'' \<Longrightarrow>
   \<exists>b' bs'. getBestFavicon_loop (f # fs) b bs = getBestFavicon_loop fs b' bs'"
  by (auto split: option.splits)

declare getBestFavicon_loop.simps(2) [simp del]

lemma loop_smaller:
  "\<forall>g\<in>set pre. qualifies g \<and> (\<exists>m. parsedSize g = Some m \<and> m < n) \<Longrightarrow> bs < n \<Longrightarrow>
   \<exists>b' bs'. bs' < n \<and> getBestFavicon_loop (pre @ rest) b bs = getBestFavicon_loop rest b' bs'"
proof (induction pre arbitrary: b bs)
  case Nil
  then show ?case by auto
next
  case (Cons g pre)
  then obtain m where m: "qualifies g" "parsedSize g = Some m" "m < n" by auto
  show ?case
  proof (cases "m > bs")
    case True
    have "\<exists>b' bs'. bs' < n \<and>
            getBestFavicon_loop (pre @ rest) (Some g) m = getBestFavicon_loop rest b' bs'"
      using Cons.IH [of m "Some g"] Cons.prems m by simp
    with True m show ?thesis by (simp add: loop_numeric)
  next
    case False
    have "\<exists>b' bs'. bs' < n \<and>
            getBestFavicon_loop (pre @ rest) b bs = getBestFavicon_loop rest b' bs'"
      using Cons.IH [of bs b] Cons.prems by simp
    with False m show ?thesis by (simp add: loop_numeric)
  qed
qed

lemma loop_not_larger:
  "\<forall>g\<in>set post. qualifies g \<and> (\<exists>m. parsedSize g = Some m \<and> m \<le> bs) \<Longrightarrow>
   getBestFavicon_loop post b bs = b"
proof (induction post)
  case Nil
  show ?case by simp
next
  case (Cons g post)
  then obtain m where m: "qualifies g" "parsedSize g = Some m" "m \<le> bs" by auto
  then have "\<not> m > bs" by (simp add: not_less)
  with Cons m show ?case by (simp add: loop_numeric)
qed

lemma loop_until_any:
  "\<forall>g\<in>set pre. sizes g \<noteq> Some ''any'' \<Longrightarrow> qualifies f \<Longrightarrow> sizes f = Some ''any'' \<Longrightarrow>
   getBestFavicon_loop (pre @ f # post) b bs = Some f"
proof (induction pre arbitrary: b bs)
  case Nil
  then show ?case by (simp add: loop_any)
next
  case (Cons g pre)
  then have "sizes g \<noteq> Some ''any''" by simp
  from loop_not_any [OF this, of "pre @ f # post" b bs]
  obtain b' bs' where
    "getBestFavicon_loop ((g # pre) @ f # post) b bs = getBestFavicon_loop (pre @ f # post) b' bs'"
    by auto
  with Cons show ?case by simp
qed

lemma getFavicons_member: "g \<in> set (getFavicons links) \<Longrightarrow> qualifies g"
  by (simp add: getFavicons_filter)

text \<open>
  Every list that is not empty splits at the first element of largest key; with the
  parsed size as key this is the candidate the next theorem is about.
\<close>

lemma first_largest_exists:
  assumes "xs \<noteq> []"
  shows "\<exists>pre f post. xs = pre @ f # post \<and> (\<forall>g\<in>set pre. key g < key f) \<and>
           (\<forall>g\<in>set post. key g \<le> (key f :: 'b :: linorder))"
  using assms
proof (induction xs rule: rev_induct)
  case Nil
  then show ?case by simp
next
  case (snoc x xs)
  show ?case
  proof (cases "xs = []")
    case True
    then have "xs @ [x] = [] @ x # []" by simp
    then show ?thesis by (metis empty_iff list.set(1))
  next
    case False
    with snoc.IH obtain pre f post where
      d: "xs = pre @ f # post" "\<forall>g\<in>set pre. key g < key f" "\<forall>g\<in>set post. key g \<le> key f"
      by blast
    show ?thesis
    proof (cases "key x \<le> key f")
      case True
      have "xs @ [x] = pre @ f # (post @ [x])" using d(1) by simp
      moreover have "\<forall>g\<in>set (post @ [x]). key g \<le> key f" using d(3) True by simp
      ultimately show ?thesis using d(2) by blast
    next
      case False
      have "\<forall>g\<in>set xs. key g < key x" using d False by fastforce
      moreover have "xs @ [x] = xs @ x # []" by simp
      ultimately show ?thesis by (metis empty_iff list.set(1))
    qed
  qed
qed

text \<open>
  Claim C1, as the code has it: when the candidates found by the scan all carry numeric
  size descriptors, \<open>getBestFavicon\<close> returns the first candidate whose parsed leading
  integer is the largest (every earlier candidate is strictly smaller, no later one is
  larger), provided that integer is positive; when it is not positive the result is
  \<open>null\<close>. The parsed integers are the Numbers \<open>parseInt\<close> returns, so two
  descriptors that round to the same double are a tie, which the first candidate wins.
\<close>

theorem getBestFavicon_largest_first:
  assumes "getFavicons links = pre @ f # post"
    and "\<forall>g\<in>set pre. \<exists>m. parsedSize g = Some m \<and> m < n"
    and "parsedSize f = Some n"
    and "\<forall>g\<in>set post. \<exists>m. parsedSize g = Some m \<and> m \<le> n"
  shows "getBestFavicon links = (if Finite 0 < n then Some f else None)"
proof -
  have q: "\<forall>g\<in>set (pre @ f # post). qualifies g"
    using assms(1) getFavicons_member by metis
  show ?thesis
  proof (cases "Finite 0 < n")
    case True
    have "\<forall>g\<in>set pre. qualifies g \<and> (\<exists>m. parsedSize g = Some m \<and> m < n)"
      using q assms(2) by simp
    from loop_smaller [OF this True, of "f # post" None]
    obtain b' bs' where b: "bs' < n"
      "getBestFavicon_loop (pre @ f # post) None (Finite 0) =
         getBestFavicon_loop (f # post) b' bs'"
      by auto
    have "qualifies f" using q by simp
    then have "getBestFavicon_loop (f # post) b' bs' = getBestFavicon_loop post (Some f) n"
      using b(1) assms(3) by (simp add: loop_numeric)
    moreover have "getBestFavicon_loop post (Some f) n = Some f"
      using q assms(4) by (intro loop_not_larger) simp
    ultimately show ?thesis using True b(2) assms(1) by (simp add: getBestFavicon_def)
  next
    case False
    have "\<forall>g\<in>set (pre @ f # post). qualifies g \<and> (\<exists>m. parsedSize g = Some m \<and> m \<le> Finite 0)"
      using q assms(2,3,4) False by fastforce
    from loop_not_larger [OF this, of None]
    show ?thesis using False assms(1) by (simp add: getBestFavicon_def)
  qed
qed

theorem getBestFavicon_largest_first_witness:
  "getFavicons [icon32, icon16] = [] @ icon32 # [icon16] \<and>
   parsedSize icon32 = Some (Finite 32) \<and> parsedSize icon16 = Some (Finite 16) \<and>
   getBestFavicon [icon32, icon16] = Some icon32 \<and>
   parsedSize iconHuge1 = Some (Finite 9007199254740992) \<and>
   parsedSize iconHuge2 = Some (Finite 9007199254740992) \<and>
   getBestFavicon [iconHuge1, iconHuge2] = Some iconHuge1"
proof -
  have h1: "getFavicons [icon32, icon16] = [] @ icon32 # [icon16]" by code_simp
  have h2: "\<forall>g\<in>set []. \<exists>m. parsedSize g = Some m \<and> m < Finite 32" by simp
  have h3: "parsedSize icon32 = Some (Finite 32)" by code_simp
  have h5: "parsedSize icon16 = Some (Finite 16)" by code_simp
  have le: "Finite 16 \<le> Finite 32" by simp
  have h4: "\<forall>g\<in>set [icon16]. \<exists>m. parsedSize g = Some m \<and> m \<le> Finite 32"
    using h5 le by simp
  have a: "getBestFavicon [icon32, icon16] = Some icon32"
    using getBestFavicon_largest_first [OF h1 h2 h3 h4] by simp
  have g1: "getFavicons [iconHuge1, iconHuge2] = [] @ iconHuge1 # [iconHuge2]" by code_simp
  have g2: "\<forall>g\<in>set []. \<exists>m. parsedSize g = Some m \<and> m < Finite 9007199254740992"
    by simp
  have g3: "parsedSize iconHuge1 = Some (Finite 9007199254740992)" by code_simp
  have g5: "parsedSize iconHuge2 = Some (Finite 9007199254740992)" by code_simp
  have g4: "\<forall>g\<in>set [iconHuge2]. \<exists>m. parsedSize g = Some m \<and> m \<le> Finite 9007199254740992"
    using g5 by simp
  have b: "getBestFavicon [iconHuge1, iconHuge2] = Some iconHuge1"
    using getBestFavicon_largest_first [OF g1 g2 g3 g4] by simp
  from h1 h3 h5 a g3 g5 b show ?thesis by blast
qed

text \<open>
  Claim C1 as written has no condition on the sign: a single candidate with the numeric
  descriptor \<open>0x0\<close> is never selected, since \<open>bestSize\<close> starts at zero and the
  comparison is strict.
\<close>

theorem getBestFavicon_zero_size_counterexample:
  "getFavicons [iconZero] = [iconZero] \<and> parsedSize iconZero = Some (Finite 0) \<and>
   getBestFavicon [iconZero] = None"
  by code_simp

text \<open>
  Claim C2, as the code has it: \<open>getBestFavicon\<close> returns the first candidate, in
  document order, whose size descriptor is exactly \<open>any\<close>, whatever comes before it and
  whatever follows it; the candidates after it are not looked at.
\<close>

theorem getBestFavicon_first_any:
  assumes "getFavicons links = pre @ f # post"
    and "sizes f = Some ''any''"
    and "\<forall>g\<in>set pre. sizes g \<noteq> Some ''any''"
  shows "getBestFavicon links = Some f"
proof -
  have "qualifies f" using assms(1) getFavicons_member [of f links] by simp
  with assms show ?thesis by (simp add: getBestFavicon_def loop_until_any)
qed

theorem getBestFavicon_first_any_witness:
  "getFavicons [icon32, iconAny2, icon16] = [icon32] @ iconAny2 # [icon16] \<and>
   getBestFavicon [icon32, iconAny2, icon16] = Some iconAny2"
proof -
  have h1: "getFavicons [icon32, iconAny2, icon16] = [icon32] @ iconAny2 # [icon16]"
    by code_simp
  have h2: "sizes iconAny2 = Some ''any''" by code_simp
  have h3: "\<forall>g\<in>set [icon32]. sizes g \<noteq> Some ''any''" by code_simp
  show ?thesis using getBestFavicon_first_any [OF h1 h2 h3] h1 by simp
qed

text \<open>
  Claim C2 as written promises every candidate with the descriptor \<open>any\<close>: of two such
  candidates the second is not returned.
\<close>

theorem getBestFavicon_second_any_counterexample:
  "iconAny2 \<in> set (getFavicons [iconAny1, iconAny2]) \<and> sizes iconAny2 = Some ''any'' \<and>
   getBestFavicon [iconAny1, iconAny2] \<noteq> Some iconAny2"
  by code_simp

text \<open>
  Claim C9: when no link element of the head qualifies (the head has no link element, or
  each one is disqualified), the scan is empty, \<open>getBestFavicon\<close> returns \<open>null\<close> and
  \<open>isAvailable\<close> returns false; no branch of either function raises.
\<close>

theorem isAvailable_no_candidate:
  assumes "\<forall>link\<in>set (head w). \<not> qualifies link"
  shows "getFavicons (head w) = [] \<and> getBestFavicon (head w) = None \<and> \<not> fst (isAvailable w)"
proof -
  have e: "getFavicons (head w) = []" using assms by (simp add: getFavicons_filter)
  then have n: "getBestFavicon (head w) = None" by (simp add: getBestFavicon_def)
  have "\<not> fst (isAvailable w)"
    using n by (simp add: isAvailable_def callGetBestFavicon_def Let_def)
  with e n show ?thesis by simp
qed

theorem isAvailable_no_candidate_witness:
  "head (init [stylesheet] 1 True resolveExample) = [stylesheet] \<and> \<not> qualifies stylesheet \<and>
   getBestFavicon (head (init [stylesheet] 1 True resolveExample)) = None \<and>
   \<not> fst (isAvailable (init [stylesheet] 1 True resolveExample))"
proof -
  have h1: "head (init [stylesheet] 1 True resolveExample) = [stylesheet]" by (simp add: init_def)
  have h2: "\<not> qualifies stylesheet" by code_simp
  have h: "\<forall>link\<in>set (head (init [stylesheet] 1 True resolveExample)). \<not> qualifies link"
    using h1 h2 by simp
  show ?thesis using isAvailable_no_candidate [OF h] h1 h2 by simp
qed

section \<open>Properties of the badge text\<close>

declare decimal.simps [simp del]

lemma of_char_digitChar: "d < 10 \<Longrightarrow> of_char (digitChar d) = (48 + d :: nat)"
  by (simp add: digitChar_def)

lemma isDigit_digitChar: "d < 10 \<Longrightarrow> isDigit (digitChar d)"
  by (simp add: isDigit_def of_char_digitChar)

lemma digitValue_digitChar: "d < 10 \<Longrightarrow> digitValue (digitChar d) = int d"
  by (simp add: digitValue_def of_char_digitChar)

lemma isDigit_not_space: "isDigit c \<Longrightarrow> \<not> isWhiteSpace c \<and> c \<noteq> CHR ''-'' \<and> c \<noteq> CHR ''+''"
  by (auto simp: isDigit_def isWhiteSpace_def)

lemma decimal_digits: "list_all isDigit (decimal n) \<and> decimal n \<noteq> []"
proof (induction n rule: decimal.induct)
  case (1 n)
  show ?case
  proof (cases "n < 10")
    case True
    then show ?thesis by (simp add: decimal.simps [of n] isDigit_digitChar)
  next
    case False
    with 1 show ?thesis by (simp add: decimal.simps [of n] isDigit_digitChar)
  qed
qed

lemma digitsValue_snoc: "digitsValue (ds @ [c]) = 10 * digitsValue ds + digitValue c"
  by (simp add: digitsValue_def)

lemma digitsValue_decimal: "digitsValue (decimal n) = int n"
proof (induction n rule: decimal.induct)
  case (1 n)
  show ?case
  proof (cases "n < 10")
    case True
    then show ?thesis
      by (simp add: decimal.simps [of n] digitsValue_def digitValue_digitChar)
  next
    case False
    then have "digitsValue (decimal n) = 10 * int (n div 10) + int (n mod 10)"
      using 1 by (simp add: decimal.simps [of n] digitsValue_snoc digitValue_digitChar)
    then show ?thesis by presburger
  qed
qed

lemma parseDigits_decimal: "parseDigits (decimal n) = Some (int n)"
proof -
  have tw: "takeWhile isDigit (decimal n) = decimal n"
    using decimal_digits [of n] by (simp add: list_all_iff)
  have ne: "decimal n \<noteq> []" using decimal_digits [of n] by simp
  show ?thesis unfolding parseDigits_def Let_def tw
    using ne by (simp add: digitsValue_decimal)
qed

lemma pow2_power: "pow2 n = 2 ^ n"
  by (induction n) simp_all

lemma parseInt_decimal: "parseInt (decimal n) = Some (toNumber (int n))"
proof -
  obtain c cs where d: "decimal n = c # cs" using decimal_digits [of n] by (cases "decimal n") auto
  then have "isDigit c" using decimal_digits [of n] by simp
  then have "\<not> isWhiteSpace c" "c \<noteq> CHR ''-''" "c \<noteq> CHR ''+''"
    using isDigit_not_space by auto
  then have "parseInt (c # cs) = map_option toNumber (parseDigits (c # cs))"
    by (simp add: parseInt_def)
  then show ?thesis using d parseDigits_decimal [of n] by simp
qed

lemma parseInt_String: "0 \<le> n \<Longrightarrow> n < 2 ^ 53 \<Longrightarrow> parseInt (String n) = Some (Finite n)"
proof -
  assume n: "0 \<le> n" "n < 2 ^ 53"
  then have "n < pow2 53" by (simp add: pow2_power)
  then have "toNumber n = Finite n" using n by (simp add: toNumber_def roundToDouble_def)
  then show ?thesis using n by (simp add: String_def parseInt_decimal)
qed

lemma renderedText_append: "renderedText (xs @ ys) = renderedText xs @ renderedText ys"
  by (induction xs rule: renderedText.induct) auto

lemma String_nonempty: "String n \<noteq> []"
  using decimal_digits by (simp add: String_def)

text \<open>
  Claim C3: the text \<open>drawBubble\<close> renders is empty for the value 0, and then the
  context is left as it was (no shape, no text); it is \<open>String(value)\<close>, the decimal
  string that reads back as the value, for an integer from 1 to 99; it is \<open>99+\<close> for an
  integer of at least 100; and it is the configured indicator for a negative number, a
  boolean or a string. Whatever the value, the only text drawn is that one, and none
  when it is empty.
\<close>

theorem drawBubble_text:
  "(finalValue (VNum 0) options = [] \<and> drawBubble r ctx (VNum 0) options = ctx) \<and>
   (1 \<le> n \<and> n \<le> 99 \<longrightarrow>
      finalValue (VNum n) options = String n \<and> parseInt (String n) = Some (Finite n)) \<and>
   (100 \<le> n \<longrightarrow> finalValue (VNum n) options = ''99+'') \<and>
   (n < 0 \<longrightarrow> finalValue (VNum n) options = indicator options) \<and>
   finalValue (VBool b) options = indicator options \<and>
   finalValue (VString s) options = indicator options \<and>
   renderedText (drawBubble r ctx v options) =
     renderedText ctx @ (if finalValue v options = [] then [] else [finalValue v options])"
proof -
  have t: "renderedText (drawBubble r ctx v options) =
     renderedText ctx @ (if finalValue v options = [] then [] else [finalValue v options])"
    by (simp add: drawBubble_def Let_def renderedText_append)
  show ?thesis
    using t by (simp add: finalValue_def isPositiveNumber_def drawBubble_def parseInt_String)
qed

theorem drawBubble_text_witness:
  "finalValue (VNum 47) defaultOptionsLiteral = ''47'' \<and>
   finalValue (VNum 123) defaultOptionsLiteral = ''99+'' \<and>
   finalValue (VNum (- 5)) defaultOptionsLiteral = ''!'' \<and>
   finalValue (VBool False) defaultOptionsLiteral = ''!'' \<and>
   renderedText (drawBubble 1 [] (VNum 47) defaultOptionsLiteral) = [''47''] \<and>
   renderedText (drawBubble 1 [] (VNum 0) defaultOptionsLiteral) = []"
proof -
  have s: "String 47 = ''47''" by code_simp
  have i: "indicator defaultOptionsLiteral = ''!''" by (simp add: defaultOptionsLiteral_def)
  show ?thesis
    using drawBubble_text [of defaultOptionsLiteral 1 "[]" 47 False "[]" "VNum 47"]
      drawBubble_text [of defaultOptionsLiteral 1 "[]" 123 False "[]" "VNum 0"]
      drawBubble_text [of defaultOptionsLiteral 1 "[]" "- 5" False "[]" "VNum 0"] s i
    by simp
qed

section \<open>Properties of \<open>isAvailable\<close> and \<open>set\<close>\<close>

lemma isAvailable_frame:
  "head (snd (isAvailable w)) = head w"
  "curFavicons (snd (isAvailable w)) = curFavicons w"
  "curBestFavicon (snd (isAvailable w)) = curBestFavicon w"
  "curValue (snd (isAvailable w)) = curValue w"
  "curOptions (snd (isAvailable w)) = curOptions w"
  "objects (snd (isAvailable w)) = objects w"
  "images (snd (isAvailable w)) = images w"
  "nextNode (snd (isAvailable w)) = nextNode w"
  "ratio (snd (isAvailable w)) = ratio w"
  "hasContext2d (snd (isAvailable w)) = hasContext2d w"
  "resolveURL (snd (isAvailable w)) = resolveURL w"
  by (simp_all add: isAvailable_def callGetBestFavicon_def Let_def)

lemma isAvailable_result:
  "fst (isAvailable w) \<longleftrightarrow>
     (context2d w \<noteq> None \<or> hasContext2d w) \<and> getBestFavicon (head w) \<noteq> None"
  by (auto simp: isAvailable_def callGetBestFavicon_def Let_def)

lemma isAvailable_calls:
  "fst (isAvailable w) \<Longrightarrow>
     getBestFaviconCalls (snd (isAvailable w)) = Suc (getBestFaviconCalls w) \<and>
     getFaviconsCalls (snd (isAvailable w)) = Suc (getFaviconsCalls w)"
  by (auto simp: isAvailable_def callGetBestFavicon_def Let_def split: if_splits)

lemma isAvailable_context:
  "fst (isAvailable w) \<Longrightarrow> context2d (snd (isAvailable w)) \<noteq> None"
  by (auto simp: isAvailable_def callGetBestFavicon_def Let_def split: if_splits)

lemma rememberOptions_frame:
  "head (rememberOptions v options w) = head w"
  "curFavicons (rememberOptions v options w) = curFavicons w"
  "curBestFavicon (rememberOptions v options w) = curBestFavicon w"
  "curValue (rememberOptions v options w) = v"
  "curOptions (rememberOptions v options w) = curOptions w"
  "images (rememberOptions v options w) = images w"
  "context2d (rememberOptions v options w) = context2d w"
  "canvas (rememberOptions v options w) = canvas w"
  "hasContext2d (rememberOptions v options w) = hasContext2d w"
  "resolveURL (rememberOptions v options w) = resolveURL w"
  "nextNode (rememberOptions v options w) = nextNode w"
  "getFaviconsCalls (rememberOptions v options w) = getFaviconsCalls w"
  "getBestFaviconCalls (rememberOptions v options w) = getBestFaviconCalls w"
  "objects (rememberOptions v options w) =
     (objects w)(curOptions w := deepMerge (objects w (curOptions w))
        (case options of None \<Rightarrow> emptyPartial | Some p \<Rightarrow> p))"
  by (simp_all add: rememberOptions_def Let_def)

lemma isAvailable_rememberOptions:
  "fst (isAvailable (rememberOptions v options w)) = fst (isAvailable w)"
  by (simp add: isAvailable_result rememberOptions_frame)

lemma rememberFavicons_cached:
  "curBestFavicon w = Some b \<Longrightarrow> curFavicons w = Some fs \<Longrightarrow> rememberFavicons w = w"
  by (simp add: rememberFavicons_def)

lemma set_result: "fst (set' v options w) = fst (isAvailable w)"
  by (simp add: set'_def case_prod_beta Let_def isAvailable_rememberOptions)

lemma set_state_unavailable:
  "\<not> fst (isAvailable w) \<Longrightarrow>
   snd (set' v options w) = snd (isAvailable (rememberOptions v options w))"
  by (simp add: set'_def case_prod_beta Let_def isAvailable_rememberOptions)

lemma set_state_available:
  "fst (isAvailable w) \<Longrightarrow>
   snd (set' v options w) =
     (let w2 = rememberFavicons (snd (isAvailable (rememberOptions v options w)))
      in drawFavicon (curValue w2) (curOptions w2) w2)"
  by (simp add: set'_def case_prod_beta Let_def isAvailable_rememberOptions)

text \<open>
  Claim C4, as the code has it: when \<open>isAvailable()\<close> is false, \<open>set\<close> returns false
  and leaves the link elements of the head, the snapshot \<open>current.favicons\<close>, the base
  \<open>current.bestFavicon\<close> and the pending images as they were; but it has already stored
  the value in \<open>current.value\<close> and merged the options into the object
  \<open>current.options\<close> refers to.
\<close>

theorem set_unavailable:
  assumes "\<not> fst (isAvailable w)"
  shows "fst (set' v options w) = False \<and>
         head (snd (set' v options w)) = head w \<and>
         curFavicons (snd (set' v options w)) = curFavicons w \<and>
         curBestFavicon (snd (set' v options w)) = curBestFavicon w \<and>
         images (snd (set' v options w)) = images w \<and>
         curValue (snd (set' v options w)) = v \<and>
         objects (snd (set' v options w)) =
           (objects w)(curOptions w := deepMerge (objects w (curOptions w))
              (case options of None \<Rightarrow> emptyPartial | Some p \<Rightarrow> p))"
  using assms
  by (simp add: set_result set_state_unavailable isAvailable_frame rememberOptions_frame)

theorem set_unavailable_witness:
  "\<not> fst (isAvailable (init [] 1 True resolveExample)) \<and>
   fst (set' (VNum 5) None (init [] 1 True resolveExample)) = False \<and>
   head (snd (set' (VNum 5) None (init [] 1 True resolveExample))) = [] \<and>
   curValue (snd (set' (VNum 5) None (init [] 1 True resolveExample))) = VNum 5"
proof -
  have h: "\<not> fst (isAvailable (init [] 1 True resolveExample))" by code_simp
  have e: "head (init [] 1 True resolveExample) = []" by (simp add: init_def)
  show ?thesis using set_unavailable [OF h, of "VNum 5" None] h e by simp
qed

text \<open>
  Claim C4 as written says the session state is left unchanged: in a document without
  icon, \<open>set(5)\<close> returns false and \<open>current.value\<close> has changed from 0 to 5.
\<close>

theorem set_unavailable_counterexample:
  "\<not> fst (isAvailable (init [] 1 True resolveExample)) \<and>
   fst (set' (VNum 5) None (init [] 1 True resolveExample)) = False \<and>
   curValue (init [] 1 True resolveExample) = VNum 0 \<and>
   curValue (snd (set' (VNum 5) None (init [] 1 True resolveExample))) = VNum 5"
  by code_simp

text \<open>
  Claim C5, as the code has it: a \<open>set\<close> that succeeds while a base and a snapshot are
  cached keeps both, loads the image of the cached base, and enters \<open>getBestFavicon\<close>
  (and through it \<open>getFavicons\<close>) exactly once, for the test \<open>isAvailable()\<close>.
\<close>

theorem set_reuses_cache:
  assumes "curBestFavicon w = Some b"
    and "curFavicons w = Some fs"
    and "fst (set' v options w)"
  shows "curBestFavicon (snd (set' v options w)) = Some b \<and>
         curFavicons (snd (set' v options w)) = Some fs \<and>
         imgSrc (last (images (snd (set' v options w)))) = Some (hrefProperty w b) \<and>
         getBestFaviconCalls (snd (set' v options w)) = Suc (getBestFaviconCalls w) \<and>
         getFaviconsCalls (snd (set' v options w)) = Suc (getFaviconsCalls w)"
proof -
  have a: "fst (isAvailable w)" using assms(3) by (simp add: set_result)
  let ?m = "rememberOptions v options w"
  have a': "fst (isAvailable ?m)" using a by (simp add: isAvailable_rememberOptions)
  have c: "getBestFaviconCalls (snd (isAvailable ?m)) = Suc (getBestFaviconCalls w)"
     "getFaviconsCalls (snd (isAvailable ?m)) = Suc (getFaviconsCalls w)"
    using isAvailable_calls [OF a'] by (simp_all add: rememberOptions_frame)
  have r: "rememberFavicons (snd (isAvailable ?m)) = snd (isAvailable ?m)"
    using assms(1,2)
    by (intro rememberFavicons_cached) (simp_all add: isAvailable_frame rememberOptions_frame)
  show ?thesis
    using a assms(1,2) c
    by (simp add: set_state_available r Let_def drawFavicon_def hrefProperty_def
        isAvailable_frame rememberOptions_frame split: option.splits)
qed

theorem set_reuses_cache_witness:
  "curBestFavicon session1 = Some icon32 \<and> curFavicons session1 = Some [icon32] \<and>
   fst (set' (VNum 2) None session1) \<and>
   curBestFavicon (snd (set' (VNum 2) None session1)) = Some icon32 \<and>
   getBestFaviconCalls (snd (set' (VNum 2) None session1)) = Suc (getBestFaviconCalls session1)"
proof -
  have h1: "curBestFavicon session1 = Some icon32" by code_simp
  have h2: "curFavicons session1 = Some [icon32]" by code_simp
  have h3: "fst (set' (VNum 2) None session1)" by code_simp
  show ?thesis using set_reuses_cache [OF h1 h2 h3] h1 h2 h3 by simp
qed

text \<open>
  Claim C5 as written allows one scan in a session: the first \<open>set\<close> enters
  \<open>getBestFavicon\<close> twice and \<open>getFavicons\<close> three times, and the second \<open>set\<close> scans
  the document once more.
\<close>

theorem set_rescans_counterexample:
  "fst (set' (VNum 1) None (init [icon32] 1 True resolveExample)) \<and> fst (set' (VNum 2) None session1) \<and>
   getBestFaviconCalls session1 = 2 \<and> getFaviconsCalls session1 = 3 \<and>
   getBestFaviconCalls session2 = 3 \<and> getFaviconsCalls session2 = 4"
  by code_simp

section \<open>Properties of \<open>clear\<close>\<close>

lemma fold_removeChild:
  "fold (\<lambda>favicon links. if favicon \<in> set links then removeChild favicon links else links)
     favicons links = filter (\<lambda>l. l \<notin> set favicons) links"
proof (induction favicons arbitrary: links)
  case Nil
  show ?case by simp
next
  case (Cons f fs)
  have "filter (\<lambda>l. l \<notin> set fs) (removeAll f links) = filter (\<lambda>l. l \<notin> set (f # fs)) links"
    by (induction links) auto
  moreover have "f \<notin> set links \<Longrightarrow>
      filter (\<lambda>l. l \<notin> set fs) links = filter (\<lambda>l. l \<notin> set (f # fs)) links"
    by (induction links) auto
  ultimately show ?case using Cons.IH by (simp add: removeChild_def)
qed

lemma removeFavicons_head:
  "head (removeFavicons w) = filter (\<lambda>l. \<not> qualifies l) (head w)"
proof -
  have "filter (\<lambda>l. l \<notin> set (filter qualifies (head w))) (head w) =
        filter (\<lambda>l. \<not> qualifies l) (head w)"
    by (rule filter_cong) auto
  then show ?thesis
    by (simp add: removeFavicons_def callGetFavicons_def fold_removeChild getFavicons_filter)
qed

lemma removeFavicons_frame:
  "curFavicons (removeFavicons w) = curFavicons w"
  "curBestFavicon (removeFavicons w) = curBestFavicon w"
  "curValue (removeFavicons w) = curValue w"
  "curOptions (removeFavicons w) = curOptions w"
  "objects (removeFavicons w) = objects w"
  "images (removeFavicons w) = images w"
  "context2d (removeFavicons w) = context2d w"
  "canvas (removeFavicons w) = canvas w"
  "nextNode (removeFavicons w) = nextNode w"
  by (simp_all add: removeFavicons_def callGetFavicons_def)

lemma fold_appendChild:
  "distinct favicons \<Longrightarrow>
   fold appendChild favicons links = filter (\<lambda>l. l \<notin> set favicons) links @ favicons"
proof (induction favicons arbitrary: links)
  case Nil
  show ?case by simp
next
  case (Cons f fs)
  have "filter (\<lambda>l. l \<notin> set fs) (removeAll f links) = filter (\<lambda>l. l \<notin> set (f # fs)) links"
    by (induction links) auto
  with Cons show ?case by (simp add: appendChild_def)
qed

lemma clear_when_unavailable: "\<not> fst (isAvailable w) \<Longrightarrow> clear w = snd (isAvailable w)"
  by (simp add: clear_def case_prod_beta)

lemma clear_no_snapshot: "curFavicons w = None \<Longrightarrow> clear w = snd (isAvailable w)"
  by (simp add: clear_def case_prod_beta isAvailable_frame)

lemma clear_snapshot:
  "fst (isAvailable w) \<Longrightarrow> curFavicons w = Some favicons \<Longrightarrow>
   clear w =
     (removeFavicons (snd (isAvailable w)))
       \<lparr>head := fold appendChild favicons (head (removeFavicons (snd (isAvailable w)))),
        curFavicons := None, curBestFavicon := None\<rparr>"
  by (simp add: clear_def case_prod_beta isAvailable_frame Let_def)

text \<open>
  Claim C6, as the code has it: when \<open>isAvailable()\<close> holds and a snapshot exists (its
  elements distinct and qualifying, as in every snapshot \<open>set\<close> takes), \<open>clear\<close> removes
  every link element the scan finds, appends the snapshot in its order, so that the scan
  of the head gives the snapshot again, and resets \<open>current.favicons\<close> and
  \<open>current.bestFavicon\<close>; when \<open>isAvailable()\<close> is false or no snapshot exists, the
  head and the fields of \<open>current\<close> are left as they were.
\<close>

theorem clear_restores:
  "(fst (isAvailable w) \<and> curFavicons w = Some favicons \<and> distinct favicons \<and>
    (\<forall>f\<in>set favicons. qualifies f) \<longrightarrow>
      head (clear w) = filter (\<lambda>l. \<not> qualifies l) (head w) @ favicons \<and>
      getFavicons (head (clear w)) = favicons \<and>
      curFavicons (clear w) = None \<and> curBestFavicon (clear w) = None) \<and>
   (\<not> fst (isAvailable w) \<or> curFavicons w = None \<longrightarrow>
      head (clear w) = head w \<and> curFavicons (clear w) = curFavicons w \<and>
      curBestFavicon (clear w) = curBestFavicon w \<and> curValue (clear w) = curValue w \<and>
      objects (clear w) = objects w \<and> images (clear w) = images w)"
proof -
  have restore: "head (clear w) = filter (\<lambda>l. \<not> qualifies l) (head w) @ favicons \<and>
      getFavicons (head (clear w)) = favicons \<and>
      curFavicons (clear w) = None \<and> curBestFavicon (clear w) = None"
    if a: "fst (isAvailable w)" and s: "curFavicons w = Some favicons"
      and d: "distinct favicons" and q: "\<forall>f\<in>set favicons. qualifies f"
  proof -
    have "filter (\<lambda>l. \<not> qualifies l \<and> l \<notin> set favicons) (head w) =
          filter (\<lambda>l. \<not> qualifies l) (head w)"
      by (rule filter_cong) (use q in auto)
    then have h: "head (clear w) = filter (\<lambda>l. \<not> qualifies l) (head w) @ favicons"
      using d by (simp add: clear_snapshot [OF a s] removeFavicons_head isAvailable_frame
          fold_appendChild)
    have "filter qualifies favicons = favicons" using q by (induction favicons) auto
    then have "getFavicons (head (clear w)) = favicons"
      by (simp add: h getFavicons_filter)
    with h show ?thesis by (simp add: clear_snapshot [OF a s])
  qed
  have noop: "head (clear w) = head w \<and> curFavicons (clear w) = curFavicons w \<and>
      curBestFavicon (clear w) = curBestFavicon w \<and> curValue (clear w) = curValue w \<and>
      objects (clear w) = objects w \<and> images (clear w) = images w"
    if "\<not> fst (isAvailable w) \<or> curFavicons w = None"
  proof -
    have "clear w = snd (isAvailable w)"
      using that clear_when_unavailable clear_no_snapshot by blast
    then show ?thesis by (simp add: isAvailable_frame)
  qed
  show ?thesis using restore noop by blast
qed

theorem clear_restores_witness:
  "fst (isAvailable loaded) \<and> curFavicons loaded = Some [icon32, icon16] \<and>
   qualifies icon32 \<and> qualifies icon16 \<and> length (head loaded) = 1 \<and>
   head (clear loaded) = [icon32, icon16] \<and>
   getFavicons (head (clear loaded)) = [icon32, icon16] \<and>
   curFavicons (clear loaded) = None \<and> curBestFavicon (clear loaded) = None"
proof -
  have h1: "fst (isAvailable loaded)" by code_simp
  have h2: "curFavicons loaded = Some [icon32, icon16]" by code_simp
  have h3: "qualifies icon32" "qualifies icon16" by code_simp+
  have h4: "length (head loaded) = 1" by code_simp
  have h5: "filter (\<lambda>l. \<not> qualifies l) (head loaded) = []" by code_simp
  have d: "distinct [icon32, icon16]" by code_simp
  have q: "\<forall>f\<in>set [icon32, icon16]. qualifies f" using h3 by simp
  have r: "head (clear loaded) = filter (\<lambda>l. \<not> qualifies l) (head loaded) @ [icon32, icon16] \<and>
        getFavicons (head (clear loaded)) = [icon32, icon16] \<and>
        curFavicons (clear loaded) = None \<and> curBestFavicon (clear loaded) = None"
    using clear_restores [of loaded "[icon32, icon16]"] h1 h2 d q by blast
  then have a: "head (clear loaded) = [icon32, icon16]" using h5 by simp
  from r a h1 h2 h3 h4 show ?thesis by blast
qed

text \<open>
  Claim C6 as written has no condition on \<open>isAvailable()\<close>: after a \<open>set\<close>, once the
  page has taken every link element out of its head, \<open>clear\<close> returns at its first
  test; the snapshot is neither appended nor reset.
\<close>

theorem clear_unavailable_counterexample:
  "curFavicons orphaned = Some [icon32] \<and> head (clear orphaned) = [] \<and>
   curFavicons (clear orphaned) = Some [icon32]"
  by code_simp

section \<open>Properties of the installation\<close>

lemma rememberFavicons_frame:
  "head (rememberFavicons w) = head w"
  "curValue (rememberFavicons w) = curValue w"
  "curOptions (rememberFavicons w) = curOptions w"
  "objects (rememberFavicons w) = objects w"
  "images (rememberFavicons w) = images w"
  "context2d (rememberFavicons w) = context2d w"
  "canvas (rememberFavicons w) = canvas w"
  by (simp_all add: rememberFavicons_def callGetBestFavicon_def callGetFavicons_def Let_def
      split: option.splits)

lemma rememberFavicons_snapshot:
  "curFavicons w = None \<Longrightarrow> curFavicons (rememberFavicons w) = Some (getFavicons (head w))"
  by (simp add: rememberFavicons_def callGetBestFavicon_def callGetFavicons_def Let_def
      split: option.splits)

lemma set_takes_snapshot:
  "curFavicons w = None \<Longrightarrow> fst (set' v options w) \<Longrightarrow>
   curFavicons (snd (set' v options w)) = Some (getFavicons (head w))"
  by (simp add: set_result set_state_available Let_def drawFavicon_def
      rememberFavicons_snapshot isAvailable_frame rememberOptions_frame)

lemma drawFavicon_frame:
  "head (drawFavicon v a w) = head w"
  "curOptions (drawFavicon v a w) = curOptions w"
  "objects (drawFavicon v a w) = objects w"
  "context2d (drawFavicon v a w) = context2d w"
  "canvas (drawFavicon v a w) = canvas w"
  by (simp_all add: drawFavicon_def Let_def)

lemma setFavicon_frame:
  "curOptions (setFavicon url w) = curOptions w"
  "objects (setFavicon url w) = objects w"
  "context2d (setFavicon url w) = context2d w"
  "canvas (setFavicon url w) = canvas w"
  by (simp_all add: setFavicon_def Let_def removeFavicons_frame)

lemma onload_frame:
  "curOptions (snd (onload img dims dataURL w)) = curOptions w"
  "objects (snd (onload img dims dataURL w)) = objects w"
  "canvas (snd (onload img dims dataURL w)) = canvas w"
  by (simp_all add: onload_def Let_def setFavicon_frame split: option.splits)

lemma isAvailable_surface: "surface w \<Longrightarrow> surface (snd (isAvailable w))"
  by (auto simp: surface_def isAvailable_def callGetBestFavicon_def Let_def)

lemma isAvailable_ready: "ready w \<Longrightarrow> ready (snd (isAvailable w))"
  by (auto simp: ready_def isAvailable_def callGetBestFavicon_def Let_def)

lemma isAvailable_now_ready:
  "surface w \<Longrightarrow> fst (isAvailable w) \<Longrightarrow> ready (snd (isAvailable w))"
  by (auto simp: surface_def ready_def isAvailable_def callGetBestFavicon_def Let_def
      split: if_splits)

lemma set_frame:
  "curOptions (snd (set' v options w)) = curOptions w"
  "canvas (snd (set' v options w)) = canvas (snd (isAvailable (rememberOptions v options w)))"
  "context2d (snd (set' v options w)) =
     context2d (snd (isAvailable (rememberOptions v options w)))"
  by (simp_all add: set'_def case_prod_beta Let_def drawFavicon_frame rememberFavicons_frame
      isAvailable_frame rememberOptions_frame)

lemma clear_frame:
  "curOptions (clear w) = curOptions w"
  "objects (clear w) = objects w"
  "canvas (clear w) = canvas (snd (isAvailable w))"
  "context2d (clear w) = context2d (snd (isAvailable w))"
  by (simp_all add: clear_def case_prod_beta Let_def removeFavicons_frame isAvailable_frame
      split: option.splits)

lemma surface_cong:
  "context2d w' = context2d w \<Longrightarrow> canvas w' = canvas w \<Longrightarrow> surface w' = surface w"
  by (simp add: surface_def)

lemma ready_cong:
  "context2d w' = context2d w \<Longrightarrow> canvas w' = canvas w \<Longrightarrow> ready w' = ready w"
  by (simp add: ready_def)

lemma set_surface: "surface (snd (set' v options w)) = surface (snd (isAvailable (rememberOptions v options w)))"
  by (rule surface_cong) (simp_all add: set_frame)

lemma set_ready_eq: "ready (snd (set' v options w)) = ready (snd (isAvailable (rememberOptions v options w)))"
  by (rule ready_cong) (simp_all add: set_frame)

lemma clear_surface: "surface (clear w) = surface (snd (isAvailable w))"
  by (rule surface_cong) (simp_all add: clear_frame)

lemma clear_ready: "ready (clear w) = ready (snd (isAvailable w))"
  by (rule ready_cong) (simp_all add: clear_frame)

lemma rememberOptions_surface: "surface (rememberOptions v options w) = surface w"
  by (rule surface_cong) (simp_all add: rememberOptions_frame)

lemma rememberOptions_ready: "ready (rememberOptions v options w) = ready w"
  by (rule ready_cong) (simp_all add: rememberOptions_frame)

lemma onload_surface: "surface w \<Longrightarrow> surface (snd (onload img dims dataURL w))"
  by (auto simp: surface_def onload_def Let_def setFavicon_frame split: option.splits)

lemma onload_ready: "ready w \<Longrightarrow> ready (snd (onload img dims dataURL w))"
  by (auto simp: ready_def onload_def Let_def setFavicon_frame split: option.splits)

lemma images_surface: "surface (w\<lparr>images := xs\<rparr>) = surface w"
  by (simp add: surface_def)

lemma images_ready: "ready (w\<lparr>images := xs\<rparr>) = ready w"
  by (simp add: ready_def)

lemma step_surface: "surface w \<Longrightarrow> surface (step c w)"
  by (cases c)
    (simp_all add: isAvailable_surface set_surface clear_surface rememberOptions_surface
      onload_surface images_surface)

lemma step_ready: "ready w \<Longrightarrow> ready (step c w)"
  by (cases c)
    (simp_all add: isAvailable_ready set_ready_eq clear_ready rememberOptions_ready
      onload_ready images_ready)

lemma run_surface: "surface w \<Longrightarrow> surface (run calls w)"
  unfolding run_def by (induction calls arbitrary: w) (simp_all add: step_surface)

lemma run_ready: "ready w \<Longrightarrow> ready (run calls w)"
  unfolding run_def by (induction calls arbitrary: w) (simp_all add: step_ready)

lemma init_surface: "surface (init links r ctx resolve)"
  by (simp add: surface_def init_def)

lemma setFavicon_one:
  assumes "url \<noteq> []"
  shows "getFavicons (head (setFavicon url w)) =
     [\<lparr>node = nextNode w, href = Some url, rel = Some ''icon favicon'', sizes = None,
       elemId = Some ''badgin'', elemType = Some ''image/x-icon''\<rparr>]"
proof -
  let ?new = "\<lparr>node = nextNode w, href = Some url, rel = Some ''icon favicon'', sizes = None,
       elemId = Some ''badgin'', elemType = Some ''image/x-icon''\<rparr>"
  have q: "qualifies ?new" using assms by (simp add: qualifies_def)
  have "filter qualifies (removeAll ?new (filter (\<lambda>l. \<not> qualifies l) (head w))) = []"
    by (induction "head w") (auto simp: filter_empty_conv)
  then show ?thesis using assms q
    by (simp add: setFavicon_def Let_def removeFavicons_head removeFavicons_frame
        appendChild_def getFavicons_filter)
qed

lemma fold_max_bound: "a \<le> fold max xs a \<and> (\<forall>x\<in>set xs. x \<le> fold max xs (a::nat))"
proof (induction xs arbitrary: a)
  case Nil
  show ?case by simp
next
  case (Cons y ys)
  have "max y a \<le> fold max ys (max y a)" using Cons [of "max y a"] by simp
  then show ?case using Cons [of "max y a"] by auto
qed

lemma init_fresh: "fresh (init links r ctx resolve)"
  using fold_max_bound [of 0 "map node links"]
  by (auto simp: fresh_def init_def less_Suc_eq_le)

lemma fresh_cong:
  "head w' = head w \<Longrightarrow> curFavicons w' = curFavicons w \<Longrightarrow> nextNode w' = nextNode w \<Longrightarrow>
   fresh w' = fresh w"
  by (simp add: fresh_def)

lemma isAvailable_fresh: "fresh (snd (isAvailable w)) = fresh w"
  by (rule fresh_cong) (simp_all add: isAvailable_frame)

lemma rememberOptions_fresh: "fresh (rememberOptions v options w) = fresh w"
  by (rule fresh_cong) (simp_all add: rememberOptions_frame)

lemma rememberFavicons_nodes:
  "nextNode (rememberFavicons w) = nextNode w"
  "curFavicons (rememberFavicons w) =
     Some (case curFavicons w of None \<Rightarrow> getFavicons (head w) | Some fs \<Rightarrow> fs)"
  by (simp_all add: rememberFavicons_def callGetBestFavicon_def callGetFavicons_def Let_def
      split: option.splits)

lemma rememberFavicons_fresh: "fresh w \<Longrightarrow> fresh (rememberFavicons w)"
  by (auto simp: fresh_def rememberFavicons_nodes rememberFavicons_frame getFavicons_filter
      split: option.splits)

lemma drawFavicon_fresh: "fresh (drawFavicon v a w) = fresh w"
  by (rule fresh_cong) (simp_all add: drawFavicon_def Let_def)

lemma set_fresh: "fresh w \<Longrightarrow> fresh (snd (set' v options w))"
  by (simp add: set'_def case_prod_beta Let_def drawFavicon_fresh rememberFavicons_fresh
      isAvailable_fresh rememberOptions_fresh)

lemma set_fold_appendChild: "set (fold appendChild favicons links) = set links \<union> set favicons"
  by (induction favicons arbitrary: links) (auto simp: appendChild_def)

lemma clear_fresh: "fresh w \<Longrightarrow> fresh (clear w)"
proof -
  assume f: "fresh w"
  show ?thesis
  proof (cases "fst (isAvailable w) \<and> curFavicons w \<noteq> None")
    case False
    then have "clear w = snd (isAvailable w)"
      using clear_when_unavailable clear_no_snapshot by blast
    then show ?thesis using f by (simp add: isAvailable_fresh)
  next
    case True
    then obtain favicons where s: "curFavicons w = Some favicons" by auto
    show ?thesis
      using f True s
      by (auto simp: fresh_def clear_snapshot set_fold_appendChild removeFavicons_head
          removeFavicons_frame isAvailable_frame)
  qed
qed

lemma setFavicon_fresh: "fresh w \<Longrightarrow> fresh (setFavicon url w)"
  by (auto simp: fresh_def setFavicon_def Let_def appendChild_def removeFavicons_head
      removeFavicons_frame less_Suc_eq split: option.splits)

lemma onload_fresh: "fresh w \<Longrightarrow> fresh (snd (onload img dims dataURL w))"
proof -
  assume f: "fresh w"
  have c: "fresh (w\<lparr>context2d := x\<rparr>)" for x using f by (simp add: fresh_def)
  show ?thesis
    using f c by (simp add: onload_def Let_def setFavicon_fresh split: option.splits)
qed

lemma images_fresh: "fresh (w\<lparr>images := xs\<rparr>) = fresh w"
  by (simp add: fresh_def)

lemma step_fresh: "fresh w \<Longrightarrow> fresh (step c w)"
  by (cases c) (simp_all add: isAvailable_fresh set_fresh clear_fresh onload_fresh images_fresh)

lemma run_fresh: "fresh w \<Longrightarrow> fresh (run calls w)"
  unfolding run_def by (induction calls arbitrary: w) (simp_all add: step_fresh)

lemma setFavicon_head:
  assumes "url \<noteq> []" and "\<forall>l\<in>set (head w). node l \<noteq> nextNode w"
  shows "head (setFavicon url w) =
     filter (\<lambda>l. \<not> qualifies l) (head w) @
     [\<lparr>node = nextNode w, href = Some url, rel = Some ''icon favicon'', sizes = None,
       elemId = Some ''badgin'', elemType = Some ''image/x-icon''\<rparr>]"
proof -
  let ?new = "\<lparr>node = nextNode w, href = Some url, rel = Some ''icon favicon'', sizes = None,
       elemId = Some ''badgin'', elemType = Some ''image/x-icon''\<rparr>"
  have "?new \<notin> set (filter (\<lambda>l. \<not> qualifies l) (head w))" using assms(2) by auto
  then have "removeAll ?new (filter (\<lambda>l. \<not> qualifies l) (head w)) =
             filter (\<lambda>l. \<not> qualifies l) (head w)"
    by (rule removeAll_id)
  then show ?thesis using assms(1)
    by (simp add: setFavicon_def Let_def removeFavicons_head removeFavicons_frame
        appendChild_def)
qed

lemma onload_head:
  assumes "ready w"
  shows "head (snd (onload img dims (Some url) w)) = head (setFavicon url w)"
proof -
  have "head (setFavicon url (w\<lparr>context2d := x\<rparr>)) = head (setFavicon url w)" for x
    by (simp add: setFavicon_def Let_def removeFavicons_def callGetFavicons_def)
  then show ?thesis using assms
    by (auto simp: ready_def onload_def Let_def split: option.splits)
qed

text \<open>
  Claim C7, as the code has it: after a \<open>set\<close> that returned true, at any state reached
  from the loaded module by calls and load events, whenever the load of a pending image
  then completes and \<open>canvas.toDataURL()\<close> yields a URL (a string that is not empty),
  the head consists of the link elements the scan does not recognise, unchanged and in
  their order, followed by one freshly created element (a new identity, \<open>id\<close> badgin,
  \<open>type\<close> image/x-icon, \<open>rel\<close> icon favicon, \<open>href\<close> the URL); the scan of the head
  finds that element and nothing else.
\<close>

theorem set_installs_one:
  assumes "url \<noteq> []"
    and "fst (set' v options (run before (init links r ctx resolve)))"
    and "w = run between (snd (set' v options (run before (init links r ctx resolve))))"
    and "i < length (images w)"
  shows "head (step (ImageLoaded i dims (Some url)) w) =
           filter (\<lambda>l. \<not> qualifies l) (head w) @
           [\<lparr>node = nextNode w, href = Some url, rel = Some ''icon favicon'', sizes = None,
             elemId = Some ''badgin'', elemType = Some ''image/x-icon''\<rparr>] \<and>
         getFavicons (head (step (ImageLoaded i dims (Some url)) w)) =
           [\<lparr>node = nextNode w, href = Some url, rel = Some ''icon favicon'', sizes = None,
             elemId = Some ''badgin'', elemType = Some ''image/x-icon''\<rparr>] \<and>
         (\<forall>l\<in>set (head w). node l \<noteq> nextNode w)"
proof -
  let ?w0 = "run before (init links r ctx resolve)"
  let ?w' = "w\<lparr>images := take i (images w) @ drop (Suc i) (images w)\<rparr>"
  have s0: "surface ?w0" by (simp add: run_surface init_surface)
  then have "surface (rememberOptions v options ?w0)" by (simp add: rememberOptions_surface)
  moreover have "fst (isAvailable (rememberOptions v options ?w0))"
    using assms(2) by (simp add: set_result isAvailable_rememberOptions)
  ultimately have "ready (snd (set' v options ?w0))"
    by (simp add: set_ready_eq isAvailable_now_ready)
  then have "ready w" using assms(3) by (simp add: run_ready)
  then have r: "ready ?w'" by (simp add: images_ready)
  have "fresh ?w0" by (simp add: run_fresh init_fresh)
  then have "fresh (snd (set' v options ?w0))" by (rule set_fresh)
  then have "fresh w" using assms(3) by (simp add: run_fresh)
  then have n: "\<forall>l\<in>set (head w). node l \<noteq> nextNode w" by (auto simp: fresh_def)
  have e: "step (ImageLoaded i dims (Some url)) w =
           snd (onload (images w ! i) dims (Some url) ?w')"
    using assms(4) by simp
  have h: "head (step (ImageLoaded i dims (Some url)) w) = head (setFavicon url ?w')"
    using r by (simp only: e onload_head)
  have "head (setFavicon url ?w') =
          filter (\<lambda>l. \<not> qualifies l) (head ?w') @
          [\<lparr>node = nextNode ?w', href = Some url, rel = Some ''icon favicon'', sizes = None,
            elemId = Some ''badgin'', elemType = Some ''image/x-icon''\<rparr>]"
    using assms(1) n by (intro setFavicon_head) simp_all
  then have h1: "head (step (ImageLoaded i dims (Some url)) w) =
           filter (\<lambda>l. \<not> qualifies l) (head w) @
           [\<lparr>node = nextNode w, href = Some url, rel = Some ''icon favicon'', sizes = None,
             elemId = Some ''badgin'', elemType = Some ''image/x-icon''\<rparr>]"
    using h by simp
  have "getFavicons (head (setFavicon url ?w')) =
          [\<lparr>node = nextNode ?w', href = Some url, rel = Some ''icon favicon'', sizes = None,
            elemId = Some ''badgin'', elemType = Some ''image/x-icon''\<rparr>]"
    using assms(1) by (rule setFavicon_one)
  then have h2: "getFavicons (head (step (ImageLoaded i dims (Some url)) w)) =
           [\<lparr>node = nextNode w, href = Some url, rel = Some ''icon favicon'', sizes = None,
             elemId = Some ''badgin'', elemType = Some ''image/x-icon''\<rparr>]"
    using h by simp
  from h1 h2 n show ?thesis by blast
qed

theorem set_installs_one_witness:
  "fst (set' (VNum 5) None (run [] (init [icon32, icon16] 1 True resolveExample))) \<and>
   length (images (run [] (snd (set' (VNum 5) None
     (run [] (init [icon32, icon16] 1 True resolveExample)))))) = 1 \<and>
   nextNode (run [] (snd (set' (VNum 5) None
     (run [] (init [icon32, icon16] 1 True resolveExample))))) = 2 \<and>
   head (step (ImageLoaded 0 (32, 32) (Some ''data:x''))
     (run [] (snd (set' (VNum 5) None
        (run [] (init [icon32, icon16] 1 True resolveExample)))))) =
     [\<lparr>node = 2, href = Some ''data:x'', rel = Some ''icon favicon'', sizes = None,
       elemId = Some ''badgin'', elemType = Some ''image/x-icon''\<rparr>]"
proof -
  let ?w = "run [] (snd (set' (VNum 5) None
     (run [] (init [icon32, icon16] 1 True resolveExample))))"
  have h1: "''data:x'' \<noteq> []" by simp
  have h2: "fst (set' (VNum 5) None (run [] (init [icon32, icon16] 1 True resolveExample)))"
    by code_simp
  have h3: "length (images ?w) = 1" by code_simp
  then have h4: "0 < length (images ?w)" by simp
  have h5: "nextNode ?w = 2" by code_simp
  have h6: "filter (\<lambda>l. \<not> qualifies l) (head ?w) = []" by code_simp
  show ?thesis
    using set_installs_one [OF h1 h2 refl h4, of "(32, 32)"] h2 h3 h5 h6 by simp
qed

text \<open>
  Claim C7 as written counts the icon links of the head. A link element whose \<open>rel\<close>
  is \<open>shortcut\<close>, a tab character and \<open>icon\<close> is an icon link in the reading of the
  specification, but the scan does not recognise it and the installation leaves it in
  place: after \<open>set(5)\<close> and the load, the head holds two icon links.
\<close>

theorem set_leaves_tab_link_counterexample:
  "fst (set' (VNum 5) None (init [icon32, iconTab1] 1 True resolveExample)) \<and>
   filter qualifiesByWhitespace
     (head (run [CallSet (VNum 5) None, ImageLoaded 0 (32, 32) (Some ''data:x'')]
        (init [icon32, iconTab1] 1 True resolveExample))) =
     [iconTab1,
      \<lparr>node = 2, href = Some ''data:x'', rel = Some ''icon favicon'', sizes = None,
       elemId = Some ''badgin'', elemType = Some ''image/x-icon''\<rparr>]"
  by code_simp

section \<open>Properties of the options object\<close>

lemma set_objects:
  "objects (snd (set' v options w)) =
     (objects w)(curOptions w := deepMerge (objects w (curOptions w))
        (case options of None \<Rightarrow> emptyPartial | Some p \<Rightarrow> p))"
  by (simp add: set'_def case_prod_beta Let_def drawFavicon_frame rememberFavicons_frame
      isAvailable_frame rememberOptions_frame)

lemma deepMerge_present: "partialAt k p = Some x \<Longrightarrow> optionAt k (deepMerge base p) = x"
  by (cases k) (simp_all add: deepMerge_def)

lemma deepMerge_absent: "partialAt k p = None \<Longrightarrow> optionAt k (deepMerge base p) = optionAt k base"
  by (cases k) (simp_all add: deepMerge_def)

lemma deepMerge_empty: "deepMerge base emptyPartial = base"
  by (simp add: deepMerge_def emptyPartial_def)

lemma step_curOptions: "curOptions (step c w) = curOptions w"
  by (cases c) (simp_all add: isAvailable_frame set_frame clear_frame onload_frame)

lemma run_curOptions: "curOptions (run calls w) = curOptions w"
  unfolding run_def by (induction calls arbitrary: w) (simp_all add: step_curOptions)

lemma step_key:
  assumes "\<not> setsKey k c"
  shows "optionAt k (objects (step c w) a) = optionAt k (objects w a)"
proof (cases c)
  case CallIsAvailable
  then show ?thesis by (simp add: isAvailable_frame)
next
  case (CallSet v options)
  show ?thesis
  proof (cases options)
    case None
    with CallSet show ?thesis by (simp add: set_objects deepMerge_empty)
  next
    case (Some p)
    with CallSet assms have "partialAt k p = None" by simp
    with CallSet Some show ?thesis by (simp add: set_objects deepMerge_absent)
  qed
next
  case CallClear
  then show ?thesis by (simp add: clear_frame)
next
  case (ImageLoaded i dims dataURL)
  then show ?thesis by (simp add: onload_frame)
qed

lemma run_key:
  "\<forall>c\<in>set calls. \<not> setsKey k c \<Longrightarrow>
   optionAt k (objects (run calls w) a) = optionAt k (objects w a)"
  unfolding run_def by (induction calls arbitrary: w) (simp_all add: step_key)

text \<open>
  Claim C10: in every state reached from the loaded module, \<open>current.options\<close> holds the
  address of the exported \<open>defaultOptions\<close>; a \<open>set\<close> whose options carry a key writes
  the value of that key into the exported object, and the value stays there through
  every later sequence of \<open>isAvailable\<close>, \<open>clear\<close>, load events and calls of \<open>set\<close>
  that do not carry the key themselves.
\<close>

theorem defaultOptions_overwritten:
  assumes "w = run before (init links r ctx resolve)"
    and "partialAt k p = Some x"
    and "\<forall>c\<in>set later. \<not> setsKey k c"
  shows "curOptions w = defaultOptions \<and>
         optionAt k (objects (snd (set' v (Some p) w)) defaultOptions) = x \<and>
         optionAt k (objects (run later (snd (set' v (Some p) w))) defaultOptions) = x \<and>
         curOptions (run later (snd (set' v (Some p) w))) = defaultOptions"
proof -
  have a: "curOptions w = defaultOptions"
    using assms(1) by (simp add: run_curOptions init_def)
  have b: "optionAt k (objects (snd (set' v (Some p) w)) defaultOptions) = x"
    using a assms(2) by (simp add: set_objects deepMerge_present)
  have c: "optionAt k (objects (run later (snd (set' v (Some p) w))) defaultOptions) = x"
    using b run_key [OF assms(3)] by simp
  have d: "curOptions (run later (snd (set' v (Some p) w))) = defaultOptions"
    using a by (simp add: run_curOptions set_frame)
  from a b c d show ?thesis by simp
qed

theorem defaultOptions_overwritten_witness:
  "backgroundColor (objects (init [icon32] 1 True resolveExample) defaultOptions) = ''#424242'' \<and>
   partialAt BackgroundColor redBackground = Some ''#ff0000'' \<and>
   \<not> setsKey BackgroundColor CallClear \<and>
   \<not> setsKey BackgroundColor (CallSet (VNum 3) None) \<and>
   backgroundColor
     (objects (run [CallClear, CallSet (VNum 3) None]
        (snd (set' (VNum 1) (Some redBackground) (run [] (init [icon32] 1 True resolveExample)))))
        defaultOptions) = ''#ff0000''"
proof -
  have h0: "backgroundColor (objects (init [icon32] 1 True resolveExample) defaultOptions) = ''#424242''"
    by (simp add: init_def defaultOptionsLiteral_def)
  have h2: "partialAt BackgroundColor redBackground = Some ''#ff0000''"
    by (simp add: redBackground_def)
  have h3: "\<forall>c\<in>set [CallClear, CallSet (VNum 3) None]. \<not> setsKey BackgroundColor c"
    by simp
  show ?thesis
    using defaultOptions_overwritten [OF refl h2 h3, of "[]" "[icon32]" 1 True resolveExample "VNum 1"] h0 h2
    by simp
qed

section \<open>The scenario of the specification\<close>

text \<open>
  A document with a 32x32 and a 16x16 icon: the larger one is selected; after \<open>set(5)\<close>
  and the load of the image the scan finds the one new link element and the only text
  drawn is \<open>5\<close>; \<open>clear()\<close> then restores both links in their order.
\<close>

lemma scenario_two_icons:
  "getBestFavicon [icon32, icon16] = Some icon32 \<and>
   getFavicons (head (run [CallSet (VNum 5) None, ImageLoaded 0 (32, 32) (Some ''data:x'')]
     (init [icon32, icon16] 1 True resolveExample))) =
     [\<lparr>node = 2, href = Some ''data:x'', rel = Some ''icon favicon'', sizes = None,
       elemId = Some ''badgin'', elemType = Some ''image/x-icon''\<rparr>] \<and>
   map_option renderedText
     (context2d (run [CallSet (VNum 5) None, ImageLoaded 0 (32, 32) (Some ''data:x'')]
        (init [icon32, icon16] 1 True resolveExample))) = Some [''5''] \<and>
   head (run [CallSet (VNum 5) None, ImageLoaded 0 (32, 32) (Some ''data:x''), CallClear]
     (init [icon32, icon16] 1 True resolveExample)) = [icon32, icon16]"
  by code_simp

end
